theory Spec2Isabelle
  imports Main "HOL-Library.Word"
begin

section \<open>Shared JavaScript notions\<close>

text \<open>
  A JavaScript string is a sequence of UTF-16 code units; \<open>length\<close> counts code units.
  Fixed texts of the source (messages, header names, URLs) are HOL strings; \<open>ustr\<close>
  reads such a literal as a JavaScript string.
\<close>

type_synonym jsstring = "nat list"

type_synonym byte = "8 word"

definition ustr :: "string \<Rightarrow> jsstring" where
  "ustr s = map of_char s"

text \<open>
  \<open>String.prototype.trim\<close> strips WhiteSpace and LineTerminator code units from both ends
  (ECMAScript: TAB, VT, FF, SP, NBSP, ZWNBSP, the Zs category, LF, CR, LS, PS).
\<close>

definition isWhiteSpace :: "nat \<Rightarrow> bool" where
  "isWhiteSpace c \<longleftrightarrow>
     c \<in> {9, 10, 11, 12, 13, 32, 160, 5760, 8232, 8233, 8239, 8287, 12288, 65279}
     \<or> (8192 \<le> c \<and> c \<le> 8202)"

definition trim :: "jsstring \<Rightarrow> jsstring" where
  "trim s = rev (dropWhile isWhiteSpace (rev (dropWhile isWhiteSpace s)))"

text \<open>\<open>String.prototype.includes\<close> on the fixed texts: contiguous occurrence.\<close>

primrec startsWith :: "string \<Rightarrow> string \<Rightarrow> bool" where
  "startsWith s [] = True"
| "startsWith s (p # ps) = (case s of [] \<Rightarrow> False | c # cs \<Rightarrow> c = p \<and> startsWith cs ps)"

primrec str_includes :: "string \<Rightarrow> string \<Rightarrow> bool" where
  "str_includes [] pat = (pat = [])"
| "str_includes (c # cs) pat = (startsWith (c # cs) pat \<or> str_includes cs pat)"

text \<open>
  Values that arrive in a parsed JSON body. A number is kept as an integer: the code only
  asks whether it is zero. \<open>JUndefined\<close> is what reading an absent property gives.
\<close>

datatype jsval =
    JUndefined
  | JNull
  | JBool bool
  | JNum int
  | JStr jsstring
  | JArr "jsval list"
  | JObj "(jsstring \<times> jsval) list"

fun truthy :: "jsval \<Rightarrow> bool" where
  "truthy JUndefined = False"
| "truthy JNull = False"
| "truthy (JBool b) = b"
| "truthy (JNum n) = (n \<noteq> 0)"
| "truthy (JStr s) = (s \<noteq> [])"
| "truthy (JArr xs) = True"
| "truthy (JObj ps) = True"

text \<open>
  An error object as the handlers read it: \<open>error.status\<close> (absent on a plain Error),
  \<open>error.name\<close> and \<open>error.message\<close>.
\<close>

record js_error =
  err_status :: "nat option"
  err_name :: string
  err_message :: string

definition TypeError :: "string \<Rightarrow> js_error" where
  "TypeError m = \<lparr>err_status = None, err_name = ''TypeError'', err_message = m\<rparr>"

definition Error :: "string \<Rightarrow> js_error" where
  "Error m = \<lparr>err_status = None, err_name = ''Error'', err_message = m\<rparr>"

text \<open>\<open>Number.prototype.toString()\<close> on a non-negative integer: its decimal digits.\<close>

definition digit :: "nat \<Rightarrow> char" where
  "digit d = char_of (48 + d)"

fun toString :: "nat \<Rightarrow> string" where
  "toString n = (if n < 10 then [digit n] else toString (n div 10) @ [digit (n mod 10)])"

declare toString.simps [simp del]

definition digitValue :: "char \<Rightarrow> nat" where
  "digitValue c = of_char c - 48"

definition parseDecimal :: "string \<Rightarrow> nat" where
  "parseDecimal s = foldl (\<lambda>a c. 10 * a + digitValue c) 0 s"

section \<open>Relay server (server/index.js)\<close>

subsection \<open>Rate gate\<close>

text \<open>
  \<open>rateLimit\<close> is a Map from the client key (\<open>req.ip\<close>) to the \<open>Date.now()\<close> of the last
  request that passed; \<open>rateLimit.get(ip) || 0\<close> reads 0 for an absent key.
  \<open>checkRateLimit\<close> returns its boolean and the updated Map.
\<close>

type_synonym 'k rateLimit = "'k \<rightharpoonup> int"

definition RATE_LIMIT_WINDOW :: int where
  "RATE_LIMIT_WINDOW = 1000"

definition checkRateLimit :: "'k \<Rightarrow> int \<Rightarrow> 'k rateLimit \<Rightarrow> bool \<times> 'k rateLimit" where
  "checkRateLimit ip now rl =
     (let lastRequest = (case rl ip of None \<Rightarrow> 0 | Some t \<Rightarrow> t)
      in if now - lastRequest < RATE_LIMIT_WINDOW then (False, rl)
         else (True, rl(ip \<mapsto> now)))"

subsection \<open>Responses\<close>

datatype body =
    NoBody
  | JsonStatus string
  | JsonError string
  | JsonText jsstring
  | Binary "byte list"

record response =
  res_status :: nat
  res_headers :: "string \<rightharpoonup> string"
  res_body :: body

text \<open>
  The response object a handler starts from: Express's default status 200 and the two
  headers the logging middleware sets on every response.
\<close>

definition fresh_response :: response where
  "fresh_response =
     \<lparr>res_status = 200,
      res_headers = [''Connection'' \<mapsto> ''keep-alive'', ''Keep-Alive'' \<mapsto> ''timeout=120''],
      res_body = NoBody\<rparr>"

definition set_status :: "nat \<Rightarrow> response \<Rightarrow> response" where
  "set_status c res = res\<lparr>res_status := c\<rparr>"

definition set_header :: "string \<Rightarrow> string \<Rightarrow> response \<Rightarrow> response" where
  "set_header k v res = res\<lparr>res_headers := (res_headers res)(k \<mapsto> v)\<rparr>"

definition json :: "body \<Rightarrow> response \<Rightarrow> response" where
  "json b res = (set_header ''Content-Type'' ''application/json'' res)\<lparr>res_body := b\<rparr>"

definition send :: "byte list \<Rightarrow> response \<Rightarrow> response" where
  "send buffer res = res\<lparr>res_body := Binary buffer\<rparr>"

text \<open>\<open>res.status(error.status || 500)\<close>: an absent or zero status is falsy.\<close>

definition status_or_500 :: "js_error \<Rightarrow> nat" where
  "status_or_500 e = (case err_status e of None \<Rightarrow> 500 | Some s \<Rightarrow> if s = 0 then 500 else s)"

definition too_many_requests :: response where
  "too_many_requests =
     json (JsonError ''Too many requests. Please wait a moment.'') (set_status 429 fresh_response)"

subsection \<open>The external provider\<close>

text \<open>
  The OpenAI client is a parameter: each call either throws an error object or returns.
  A transcription returns its \<open>text\<close> (\<open>None\<close> when the response is null or has no text);
  a synthesis returns the bytes of \<open>response.arrayBuffer()\<close>.
\<close>

record upload =
  file_buffer :: "byte list"
  file_mimetype :: jsstring
  file_originalname :: jsstring

record transcription_call =
  tc_file :: upload
  tc_model :: string
  tc_response_format :: string
  tc_temperature :: nat
  tc_language :: string

record speech_call =
  sc_model :: string
  sc_voice :: jsval
  sc_input :: jsstring

datatype provider_call = TranscriptionCall transcription_call | SpeechCall speech_call

record provider =
  transcriptions_create :: "transcription_call \<Rightarrow> js_error + jsstring option"
  speech_create :: "speech_call \<Rightarrow> js_error + byte list"

subsection \<open>GET /api/health\<close>

definition health_handler :: response where
  "health_handler = json (JsonStatus ''ok'') fresh_response"

subsection \<open>POST /api/transcribe\<close>

definition transcribe_catch :: "js_error \<Rightarrow> response" where
  "transcribe_catch e =
     (let errorMessage =
        (if str_includes (err_message e) ''socket hang up'' \<or> str_includes (err_message e) ''timeout''
         then ''Connection timed out. StackBlitz has limited connection timeouts for large files. Try a shorter audio clip (under 10 seconds).''
         else if str_includes (err_message e) ''File''
         then ''File handling error in StackBlitz environment. Try using the formData approach in the frontend.''
         else if err_status e = Some 400
         then ''Invalid audio format. Please ensure you're sending a supported audio format (MP3, WAV, etc.).''
         else if err_status e = Some 401
         then ''Authentication error. Please check your API key.''
         else ''Failed to transcribe audio.'')
      in json (JsonError errorMessage) (set_status (status_or_500 e) fresh_response))"

text \<open>
  Each handler returns the response, the provider calls it made, and the rate-limit Map.
  \<open>now\<close> is the \<open>Date.now()\<close> read inside \<open>checkRateLimit\<close>; \<open>file\<close> is \<open>req.file\<close>.
\<close>

definition transcribe_handler ::
  "provider \<Rightarrow> 'k \<Rightarrow> int \<Rightarrow> upload option \<Rightarrow> 'k rateLimit
   \<Rightarrow> (response \<times> provider_call list) \<times> 'k rateLimit" where
  "transcribe_handler P ip now file rl =
     (let (ok, rl') = checkRateLimit ip now rl in
      if \<not> ok then ((too_many_requests, []), rl')
      else case file of
        None \<Rightarrow>
          ((json (JsonError ''No audio file provided'') (set_status 400 fresh_response), []), rl')
      | Some f \<Rightarrow>
          (let call = \<lparr>tc_file = f, tc_model = ''whisper-1'', tc_response_format = ''json'',
                       tc_temperature = 0, tc_language = ''en''\<rparr>
           in case transcriptions_create P call of
                Inl e \<Rightarrow> ((transcribe_catch e, [TranscriptionCall call]), rl')
              | Inr None \<Rightarrow>
                  ((json (JsonError ''Failed to transcribe audio. No text returned.'')
                      (set_status 500 fresh_response), [TranscriptionCall call]), rl')
              | Inr (Some t) \<Rightarrow>
                  if t = []
                  then ((json (JsonError ''Failed to transcribe audio. No text returned.'')
                          (set_status 500 fresh_response), [TranscriptionCall call]), rl')
                  else ((json (JsonText t) fresh_response, [TranscriptionCall call]), rl')))"

subsection \<open>POST /api/speech\<close>

text \<open>
  Reading the property \<open>text\<close> or \<open>voice\<close> of a parsed JSON value: only an object can
  carry one.
\<close>

fun getProp :: "jsval \<Rightarrow> string \<Rightarrow> jsval" where
  "getProp (JObj ps) k = (case map_of ps (ustr k) of None \<Rightarrow> JUndefined | Some v \<Rightarrow> v)"
| "getProp v k = JUndefined"

definition speech_catch :: "js_error \<Rightarrow> response" where
  "speech_catch e =
     (let errorMessage =
        (if str_includes (err_message e) ''timeout'' \<or> str_includes (err_message e) ''socket hang up''
         then ''Request timed out. Consider using shorter text in StackBlitz environment.''
         else ''Failed to generate speech.'')
      in json (JsonError errorMessage) (set_status (status_or_500 e) fresh_response))"

text \<open>
  The part of the handler after the rate gate. Destructuring \<open>req.body\<close> throws a
  TypeError when it is undefined or null; \<open>text.trim()\<close> throws one when a truthy \<open>text\<close>
  is not a string. Both land in the handler's own catch.
\<close>

definition speech_validated :: "provider \<Rightarrow> jsval \<Rightarrow> response \<times> provider_call list" where
  "speech_validated P reqBody =
     (if reqBody = JUndefined \<or> reqBody = JNull
      then (speech_catch (TypeError ''Cannot destructure property 'text' of 'req.body' as it is undefined.''), [])
      else
        let text = getProp reqBody ''text''; voice = getProp reqBody ''voice'' in
        if \<not> truthy text
        then (json (JsonError ''No text provided'') (set_status 400 fresh_response), [])
        else case text of
          JStr s \<Rightarrow>
            if trim s = []
            then (json (JsonError ''No text provided'') (set_status 400 fresh_response), [])
            else if length s > 4000
            then (json (JsonError ''Text too long. Maximum length is 4000 characters.'')
                    (set_status 400 fresh_response), [])
            else
              let selectedVoice = (if truthy voice then voice else JStr (ustr ''alloy''));
                  call = \<lparr>sc_model = ''tts-1'', sc_voice = selectedVoice, sc_input = s\<rparr>
              in (case speech_create P call of
                    Inl e \<Rightarrow> (speech_catch e, [SpeechCall call])
                  | Inr buffer \<Rightarrow>
                      (send buffer
                         (set_header ''Content-Length'' (toString (length buffer))
                            (set_header ''Content-Type'' ''audio/mpeg'' fresh_response)),
                       [SpeechCall call]))
        | _ \<Rightarrow> (speech_catch (TypeError ''text.trim is not a function''), []))"

definition speech_handler ::
  "provider \<Rightarrow> 'k \<Rightarrow> int \<Rightarrow> jsval \<Rightarrow> 'k rateLimit
   \<Rightarrow> (response \<times> provider_call list) \<times> 'k rateLimit" where
  "speech_handler P ip now reqBody rl =
     (let (ok, rl') = checkRateLimit ip now rl in
      if \<not> ok then ((too_many_requests, []), rl')
      else (speech_validated P reqBody, rl'))"

subsection \<open>The server over a sequence of requests\<close>

datatype request = Health | Transcribe "upload option" | Speech jsval

fun gated :: "request \<Rightarrow> bool" where
  "gated Health = False"
| "gated (Transcribe f) = True"
| "gated (Speech b) = True"

text \<open>An arrival is the client key, the clock when the handler runs, and the request.\<close>

type_synonym 'k arrival = "'k \<times> int \<times> request"

fun serve :: "provider \<Rightarrow> 'k rateLimit \<Rightarrow> 'k arrival \<Rightarrow> (response \<times> provider_call list) \<times> 'k rateLimit" where
  "serve P rl (ip, now, Health) = ((health_handler, []), rl)"
| "serve P rl (ip, now, Transcribe f) = transcribe_handler P ip now f rl"
| "serve P rl (ip, now, Speech b) = speech_handler P ip now b rl"

text \<open>
  The single-threaded event loop handles arrivals one after the other; \<open>run\<close> returns the
  log of arrivals with their responses and the final Map.
\<close>

fun run :: "provider \<Rightarrow> 'k rateLimit \<Rightarrow> 'k arrival list \<Rightarrow> ('k arrival \<times> response) list \<times> 'k rateLimit" where
  "run P rl [] = ([], rl)"
| "run P rl (a # as) =
     (let (out, rl') = serve P rl a; (log, rl'') = run P rl' as
      in ((a, fst out) # log, rl''))"

text \<open>
  The times of the requests of key \<open>k\<close> that the gate let through, read off the log: the
  gated requests that were not answered with the gate's 429.
\<close>

definition accepted_times :: "'k \<Rightarrow> ('k arrival \<times> response) list \<Rightarrow> int list" where
  "accepted_times k log =
     map (\<lambda>(a, r). fst (snd a))
       (filter (\<lambda>(a, r). fst a = k \<and> gated (snd (snd a)) \<and> r \<noteq> too_many_requests) log)"

definition last_accepted :: "'k \<Rightarrow> ('k arrival \<times> response) list \<Rightarrow> int option" where
  "last_accepted k log =
     (if accepted_times k log = [] then None else Some (last (accepted_times k log)))"

text \<open>
  A provider that cannot be reached, for the examples: every call throws the client
  library's connection error, which carries no status.
\<close>

definition unreachable_provider :: provider where
  "unreachable_provider =
     \<lparr>transcriptions_create = \<lambda>c. Inl (Error ''Connection error.''),
      speech_create = \<lambda>c. Inl (Error ''Connection error.'')\<rparr>"

text \<open>
  A provider that answers every call, and one that rejects the API key (the provider's
  HTTP 401), for the examples.
\<close>

definition canned_provider :: provider where
  "canned_provider =
     \<lparr>transcriptions_create = \<lambda>c. Inr (Some (ustr ''hello'')),
      speech_create = \<lambda>c. Inr [73, 68, 51]\<rparr>"

definition unauthorized_provider :: provider where
  "unauthorized_provider =
     \<lparr>transcriptions_create = \<lambda>c. Inl \<lparr>err_status = Some 401, err_name = ''Error'', err_message = ''401 Incorrect API key provided''\<rparr>,
      speech_create = \<lambda>c. Inl \<lparr>err_status = Some 401, err_name = ''Error'', err_message = ''401 Incorrect API key provided''\<rparr>\<rparr>"

section \<open>Client API gateway\<close>

subsection \<open>The fetch primitive\<close>

text \<open>
  A request is a URL and the init object passed to \<open>fetch\<close>; \<open>fi_signal\<close> is the delay in
  milliseconds of the abort timer whose signal is attached, \<open>None\<close> when no signal is
  passed. The network is a parameter: for each request it says after how many
  milliseconds the promise would settle and how (resolved with a response, or rejected
  with an error whose message is the browser's). With a signal attached the promise is
  rejected with an AbortError when the timer fires first; a tie goes to the response.
\<close>

datatype req_body =
    NoReqBody
  | FormData string "byte list" string
  | JsonBody jsval

record fetch_init =
  fi_method :: string
  fi_headers :: "(string \<times> string) list"
  fi_body :: req_body
  fi_signal :: "nat option"

text \<open>
  The parsed JSON body of a response as the gateway reads it: its \<open>error\<close> string when
  present and its \<open>text\<close>.
\<close>

record json_payload =
  jp_error :: "string option"
  jp_text :: jsstring

text \<open>
  \<open>resp_json\<close> is \<open>None\<close> when the body is not JSON (\<open>response.json()\<close> then rejects
  with a SyntaxError); \<open>resp_bytes\<close> is what \<open>arrayBuffer()\<close> or \<open>blob()\<close> gives.
\<close>

record http_response =
  resp_ok :: bool
  resp_json :: "json_payload option"
  resp_bytes :: "byte list"

datatype fetch_outcome = Resolved http_response | Rejected js_error

record exchange =
  latency :: nat
  outcome :: fetch_outcome

type_synonym network = "string \<Rightarrow> fetch_init \<Rightarrow> exchange"

definition AbortError :: js_error where
  "AbortError = \<lparr>err_status = None, err_name = ''AbortError'',
                  err_message = ''The user aborted a request.''\<rparr>"

definition SyntaxError :: js_error where
  "SyntaxError = \<lparr>err_status = None, err_name = ''SyntaxError'',
                   err_message = ''Unexpected end of JSON input''\<rparr>"

definition fetch :: "network \<Rightarrow> string \<Rightarrow> fetch_init \<Rightarrow> fetch_outcome" where
  "fetch net url init =
     (case fi_signal init of
        None \<Rightarrow> outcome (net url init)
      | Some ms \<Rightarrow> if ms < latency (net url init) then Rejected AbortError
                   else outcome (net url init))"

text \<open>\<open>fetch(url)\<close> without an init object.\<close>

definition plain_get :: fetch_init where
  "plain_get = \<lparr>fi_method = ''GET'', fi_headers = [], fi_body = NoReqBody, fi_signal = None\<rparr>"

text \<open>\<open>error.error || fallback\<close>: an absent or empty string is falsy.\<close>

definition error_or :: "json_payload \<Rightarrow> string \<Rightarrow> string" where
  "error_or j fallback =
     (case jp_error j of None \<Rightarrow> fallback | Some m \<Rightarrow> if m = [] then fallback else m)"

subsection \<open>services/openai.ts\<close>

definition API_BASE_URL :: string where
  "API_BASE_URL = ''/api''"

definition server_connection_failed :: js_error where
  "server_connection_failed = Error ''Server connection failed. Please ensure the server is running.''"

text \<open>
  The inner try/catch around the health check: a rejected fetch and a response that is
  not ok both end in the same error.
\<close>

definition healthCheck :: "network \<Rightarrow> js_error + unit" where
  "healthCheck net =
     (case fetch net (API_BASE_URL @ ''/health'') plain_get of
        Resolved r \<Rightarrow> if \<not> resp_ok r then Inl server_connection_failed else Inr ()
      | Rejected e \<Rightarrow> Inl server_connection_failed)"

text \<open>The outer catch of both operations.\<close>

definition gateway_catch :: "js_error \<Rightarrow> js_error" where
  "gateway_catch e =
     (if err_message e = ''Failed to fetch'' then server_connection_failed else e)"

text \<open>
  The init objects of the two main requests: a FormData with the blob under \<open>audio\<close>, and
  the JSON text of \<open>{ text }\<close>. Neither carries a signal.
\<close>

definition transcribe_request :: "byte list \<Rightarrow> fetch_init" where
  "transcribe_request audioBlob =
     \<lparr>fi_method = ''POST'', fi_headers = [],
      fi_body = FormData ''audio'' audioBlob ''recording.webm'', fi_signal = None\<rparr>"

definition speech_request :: "jsstring \<Rightarrow> fetch_init" where
  "speech_request text =
     \<lparr>fi_method = ''POST'', fi_headers = [(''Content-Type'', ''application/json'')],
      fi_body = JsonBody (JObj [(ustr ''text'', JStr text)]), fi_signal = None\<rparr>"

text \<open>
  Each operation returns the requests it issued, in order, and either the error it
  throws or its result.
\<close>

definition transcribeAudio ::
  "network \<Rightarrow> byte list \<Rightarrow> (string \<times> fetch_init) list \<times> (js_error + jsstring)" where
  "transcribeAudio net audioBlob =
     (case healthCheck net of
        Inl e \<Rightarrow> ([(API_BASE_URL @ ''/health'', plain_get)], Inl (gateway_catch e))
      | Inr u \<Rightarrow>
          let init = transcribe_request audioBlob
          in ([(API_BASE_URL @ ''/health'', plain_get), (API_BASE_URL @ ''/transcribe'', init)],
              case fetch net (API_BASE_URL @ ''/transcribe'') init of
                Rejected e \<Rightarrow> Inl (gateway_catch e)
              | Resolved response \<Rightarrow>
                  (case resp_json response of
                     None \<Rightarrow> Inl (gateway_catch SyntaxError)
                   | Some j \<Rightarrow>
                       if \<not> resp_ok response
                       then Inl (gateway_catch (Error (error_or j ''Failed to transcribe audio'')))
                       else Inr (jp_text j))))"

definition generateSpeech ::
  "network \<Rightarrow> jsstring \<Rightarrow> (string \<times> fetch_init) list \<times> (js_error + byte list)" where
  "generateSpeech net text =
     (case healthCheck net of
        Inl e \<Rightarrow> ([(API_BASE_URL @ ''/health'', plain_get)], Inl (gateway_catch e))
      | Inr u \<Rightarrow>
          let init = speech_request text
          in ([(API_BASE_URL @ ''/health'', plain_get), (API_BASE_URL @ ''/speech'', init)],
              case fetch net (API_BASE_URL @ ''/speech'') init of
                Rejected e \<Rightarrow> Inl (gateway_catch e)
              | Resolved response \<Rightarrow>
                  if \<not> resp_ok response
                  then (case resp_json response of
                          None \<Rightarrow> Inl (gateway_catch SyntaxError)
                        | Some j \<Rightarrow>
                            Inl (gateway_catch (Error (error_or j ''Failed to generate speech''))))
                  else Inr (resp_bytes response)))"

subsection \<open>audioUtils.js\<close>

text \<open>
  The stand-alone helpers of the same names. They make no health check; they attach the
  signal of an AbortController whose timer is set to 30000 ms, and their catch turns an
  AbortError into a timeout error of its own.
\<close>

definition audioUtils_transcribe_request :: "byte list \<Rightarrow> fetch_init" where
  "audioUtils_transcribe_request audioBlob =
     \<lparr>fi_method = ''POST'', fi_headers = [],
      fi_body = FormData ''audio'' audioBlob ''recording.webm'', fi_signal = Some 30000\<rparr>"

definition audioUtils_speech_request :: "jsstring \<Rightarrow> jsval \<Rightarrow> fetch_init" where
  "audioUtils_speech_request text voice =
     \<lparr>fi_method = ''POST'', fi_headers = [(''Content-Type'', ''application/json'')],
      fi_body = JsonBody (JObj [(ustr ''text'', JStr text), (ustr ''voice'', voice)]),
      fi_signal = Some 30000\<rparr>"

definition audioUtils_catch :: "string \<Rightarrow> js_error \<Rightarrow> js_error" where
  "audioUtils_catch timeoutMessage e =
     (if err_name e = ''AbortError'' then Error timeoutMessage else e)"

definition audioUtils_transcribeAudio ::
  "network \<Rightarrow> byte list \<Rightarrow> (string \<times> fetch_init) list \<times> (js_error + jsstring)" where
  "audioUtils_transcribeAudio net audioBlob =
     (let init = audioUtils_transcribe_request audioBlob
      in ([(''/api/transcribe'', init)],
          case fetch net ''/api/transcribe'' init of
            Rejected e \<Rightarrow>
              Inl (audioUtils_catch
                ''Transcription request timed out. Try a shorter recording (under 10 seconds).'' e)
          | Resolved response \<Rightarrow>
              (case resp_json response of
                 None \<Rightarrow>
                   Inl (audioUtils_catch
                     ''Transcription request timed out. Try a shorter recording (under 10 seconds).''
                     SyntaxError)
               | Some j \<Rightarrow>
                   if \<not> resp_ok response
                   then Inl (audioUtils_catch
                     ''Transcription request timed out. Try a shorter recording (under 10 seconds).''
                     (Error (error_or j ''Transcription failed'')))
                   else Inr (jp_text j))))"

definition audioUtils_generateSpeech ::
  "network \<Rightarrow> jsstring \<Rightarrow> jsval \<Rightarrow> (string \<times> fetch_init) list \<times> (js_error + byte list)" where
  "audioUtils_generateSpeech net text voiceArg =
     (let voice = (if voiceArg = JUndefined then JStr (ustr ''alloy'') else voiceArg);
          init = audioUtils_speech_request text voice
      in ([(''/api/speech'', init)],
          case fetch net ''/api/speech'' init of
            Rejected e \<Rightarrow>
              Inl (audioUtils_catch ''Speech generation request timed out. Try shorter text.'' e)
          | Resolved response \<Rightarrow>
              if \<not> resp_ok response
              then (case resp_json response of
                      None \<Rightarrow>
                        Inl (audioUtils_catch
                          ''Speech generation request timed out. Try shorter text.'' SyntaxError)
                    | Some j \<Rightarrow>
                        Inl (audioUtils_catch
                          ''Speech generation request timed out. Try shorter text.''
                          (Error (error_or j ''Speech generation failed''))))
              else Inr (resp_bytes response)))"

section \<open>Recording and playback controller (components/VoiceControls.tsx)\<close>

subsection \<open>State\<close>

text \<open>The store shared by all components (store/useAppStore).\<close>

record app_store =
  isEnabled :: bool
  isSpeaking :: bool
  isListening :: bool

text \<open>
  The element \<open>targetRef.current\<close> points to: a textarea with its \<open>value\<close>, a div with its
  \<open>textContent\<close>, or nothing.
\<close>

datatype target = TextArea jsstring | Div jsstring | NoTarget

text \<open>
  A MediaRecorder with its \<open>state\<close> and the \<open>readyState\<close> of each track of its stream.
  \<open>stop()\<close> on an inactive recorder throws an InvalidStateError; \<open>track.stop()\<close> ends a
  track and does nothing to an ended one.
\<close>

datatype recorder_state = Inactive | Recording | Paused

datatype track_state = Live | Ended

record media_recorder =
  mr_state :: recorder_state
  mr_tracks :: "track_state list"

definition InvalidStateError :: js_error where
  "InvalidStateError = \<lparr>err_status = None, err_name = ''InvalidStateError'',
                         err_message = ''The MediaRecorder's state is 'inactive'.''\<rparr>"

definition mr_stop :: "media_recorder \<Rightarrow> js_error + media_recorder" where
  "mr_stop mr = (if mr_state mr = Inactive then Inl InvalidStateError
                 else Inr (mr\<lparr>mr_state := Inactive\<rparr>))"

definition track_stop :: "track_state \<Rightarrow> track_state" where
  "track_stop t = Ended"

text \<open>
  One mounted VoiceControls: its refs and its local state. \<open>audioRef\<close> holds the \<open>src\<close> of
  the Audio element once the mount effect has created it.
\<close>

record voice_controls =
  mediaRecorder :: "media_recorder option"
  audioChunks :: "byte list list"
  isRecording :: bool
  error :: "string option"
  audioRef :: "byte list option option"
  timeLeft :: int
  isProcessing :: bool
  lastApiCallRef :: int
  hasPermission :: "bool option"
  targetRef :: target

definition MAX_RECORDING_TIME :: int where
  "MAX_RECORDING_TIME = 10"

definition RATE_LIMIT_DELAY :: int where
  "RATE_LIMIT_DELAY = 1000"

text \<open>The component as mounted: the initial values of its hooks, after the mount effect.\<close>

definition mounted :: "target \<Rightarrow> voice_controls" where
  "mounted t =
     \<lparr>mediaRecorder = None, audioChunks = [], isRecording = False, error = None,
      audioRef = Some None, timeLeft = MAX_RECORDING_TIME, isProcessing = False,
      lastApiCallRef = 0, hasPermission = None, targetRef = t\<rparr>"

text \<open>What a rejected promise carries: an Error object, or some other thrown value.\<close>

datatype thrown = ThrownError js_error | ThrownOther

subsection \<open>The component's own rate limiter\<close>

definition vc_checkRateLimit :: "int \<Rightarrow> voice_controls \<Rightarrow> bool \<times> voice_controls" where
  "vc_checkRateLimit now s =
     (if now - lastApiCallRef s < RATE_LIMIT_DELAY
      then (False, s\<lparr>error := Some ''Please wait a moment before making another request.''\<rparr>)
      else (True, s\<lparr>lastApiCallRef := now\<rparr>))"

subsection \<open>Recording\<close>

text \<open>
  \<open>mic\<close> is how the permission query and \<open>getUserMedia\<close> end: with the tracks of the
  stream, or with what was thrown.
\<close>

definition requestMicrophonePermission ::
  "thrown + track_state list \<Rightarrow> voice_controls \<Rightarrow> (thrown + track_state list) \<times> voice_controls" where
  "requestMicrophonePermission mic s =
     (case mic of
        Inr stream \<Rightarrow> (Inr stream, s\<lparr>hasPermission := Some True, error := None\<rparr>)
      | Inl (ThrownError e) \<Rightarrow>
          (Inl (ThrownError (Error
             (if err_name e = ''NotAllowedError''
              then ''Microphone access denied. Please allow microphone access in your browser settings and try again.''
              else if err_name e = ''NotFoundError''
              then ''No microphone found. Please connect a microphone and try again.''
              else if err_name e = ''NotReadableError''
              then ''Could not access microphone. The device may be in use by another application.''
              else ''Could not access microphone. Please check your settings and try again.''))),
           s\<lparr>hasPermission := Some False\<rparr>)
      | Inl ThrownOther \<Rightarrow> (Inl ThrownOther, s\<lparr>hasPermission := Some False\<rparr>))"

text \<open>
  \<open>startRecording\<close> runs up to its first await, then resumes when the permission request
  settles. \<open>startRecording_begin\<close> is the first part: it either returns at once (the
  limiter refused) or is left waiting for the microphone.
\<close>

datatype started = Refused voice_controls | AwaitingPermission voice_controls

definition startRecording_begin :: "int \<Rightarrow> voice_controls \<Rightarrow> started" where
  "startRecording_begin now s =
     (let (ok, s1) = vc_checkRateLimit now s in
      if \<not> ok then Refused s1
      else AwaitingPermission
        (s1\<lparr>error := None, isProcessing := False,
            targetRef := (case targetRef s1 of TextArea v \<Rightarrow> TextArea [] | t \<Rightarrow> t)\<rparr>))"

definition startRecording_resume ::
  "thrown + track_state list \<Rightarrow> app_store \<times> voice_controls \<Rightarrow> app_store \<times> voice_controls" where
  "startRecording_resume mic st =
     (let (store, s) = st; (r, s1) = requestMicrophonePermission mic s in
      case r of
        Inr stream \<Rightarrow>
          (store\<lparr>isListening := True\<rparr>,
           s1\<lparr>mediaRecorder := Some \<lparr>mr_state = Recording, mr_tracks = stream\<rparr>,
               audioChunks := [], isRecording := True\<rparr>)
      | Inl t \<Rightarrow>
          (store\<lparr>isListening := False\<rparr>,
           s1\<lparr>error := Some (case t of ThrownError e \<Rightarrow> err_message e
                                | ThrownOther \<Rightarrow> ''Failed to start recording''),
               isRecording := False\<rparr>))"

definition startRecording ::
  "int \<Rightarrow> thrown + track_state list \<Rightarrow> app_store \<times> voice_controls \<Rightarrow> app_store \<times> voice_controls" where
  "startRecording now mic st =
     (case startRecording_begin now (snd st) of
        Refused s1 \<Rightarrow> (fst st, s1)
      | AwaitingPermission s1 \<Rightarrow> startRecording_resume mic (fst st, s1))"

text \<open>The recorder's \<open>ondataavailable\<close> handler.\<close>

definition ondataavailable :: "byte list \<Rightarrow> voice_controls \<Rightarrow> voice_controls" where
  "ondataavailable chunk s =
     (if length chunk > 0 then s\<lparr>audioChunks := audioChunks s @ [chunk]\<rparr> else s)"

text \<open>
  The recorder's \<open>onstop\<close> handler: it joins the chunks, calls the gateway and writes the
  transcript into a textarea target, or stores the error message. It returns the requests
  the gateway issued as well.
\<close>

definition onstop ::
  "network \<Rightarrow> app_store \<times> voice_controls
   \<Rightarrow> (string \<times> fetch_init) list \<times> app_store \<times> voice_controls" where
  "onstop net st =
     (let (store, s) = st;
          audioBlob = concat (audioChunks s);
          (reqs, r) = transcribeAudio net audioBlob;
          s1 = (case r of
                  Inr text \<Rightarrow>
                    s\<lparr>targetRef := (case targetRef s of TextArea v \<Rightarrow> TextArea text | t \<Rightarrow> t)\<rparr>
                | Inl e \<Rightarrow> s\<lparr>error := Some (err_message e)\<rparr>)
      in (reqs, store\<lparr>isListening := False\<rparr>, s1\<lparr>isProcessing := False, isRecording := False\<rparr>))"

definition stopRecording :: "voice_controls \<Rightarrow> js_error + voice_controls" where
  "stopRecording s =
     (case mediaRecorder s of
        None \<Rightarrow> Inr s
      | Some mr \<Rightarrow>
          if mr_state mr \<noteq> Inactive
          then (case mr_stop mr of
                  Inl e \<Rightarrow> Inl e
                | Inr mr1 \<Rightarrow>
                    Inr (s\<lparr>mediaRecorder := Some (mr1\<lparr>mr_tracks := map track_stop (mr_tracks mr1)\<rparr>)\<rparr>))
          else Inr s)"

text \<open>
  The effect on \<open>isRecording\<close> resets the countdown; while recording, the interval callback
  runs every second: at \<open>prev <= 1\<close> it calls \<open>stopRecording\<close> and sets 0.
\<close>

definition recordingEffect :: "voice_controls \<Rightarrow> voice_controls" where
  "recordingEffect s = s\<lparr>timeLeft := MAX_RECORDING_TIME\<rparr>"

definition tick :: "voice_controls \<Rightarrow> js_error + voice_controls" where
  "tick s =
     (if timeLeft s \<le> 1
      then (case stopRecording s of Inl e \<Rightarrow> Inl e | Inr s1 \<Rightarrow> Inr (s1\<lparr>timeLeft := 0\<rparr>))
      else Inr (s\<lparr>timeLeft := timeLeft s - 1\<rparr>))"

definition handleSpeechToText ::
  "int \<Rightarrow> thrown + track_state list \<Rightarrow> app_store \<times> voice_controls
   \<Rightarrow> js_error + app_store \<times> voice_controls" where
  "handleSpeechToText now mic st =
     (if \<not> isEnabled (fst st) then Inr st
      else if isRecording (snd st)
      then (case stopRecording (snd st) of Inl e \<Rightarrow> Inl e | Inr s1 \<Rightarrow> Inr (fst st, s1))
      else Inr (startRecording now mic st))"

subsection \<open>Playback\<close>

text \<open>
  \<open>play\<close> is how \<open>audioRef.current.play()\<close> ends: \<open>None\<close> when playback starts, or what
  was thrown. The handler returns the requests the gateway issued.
\<close>

definition handleTextToSpeech ::
  "int \<Rightarrow> network \<Rightarrow> thrown option \<Rightarrow> app_store \<times> voice_controls
   \<Rightarrow> (string \<times> fetch_init) list \<times> app_store \<times> voice_controls" where
  "handleTextToSpeech now net play st =
     (let (store, s) = st in
      if \<not> isEnabled store \<or> audioRef s = None then ([], store, s)
      else
        let (ok, s1) = vc_checkRateLimit now s in
        if \<not> ok then ([], store, s1)
        else
          let text = (case targetRef s1 of Div c \<Rightarrow> c | TextArea v \<Rightarrow> v | NoTarget \<Rightarrow> []) in
          if trim text = []
          then ([], store, s1\<lparr>error := Some ''Please enter some text to convert to speech''\<rparr>)
          else
            let s2 = s1\<lparr>error := None, isProcessing := True\<rparr>;
                (reqs, r) = generateSpeech net text
            in case r of
                 Inl e \<Rightarrow>
                   (reqs, store\<lparr>isSpeaking := False\<rparr>,
                    s2\<lparr>error := Some (err_message e), isProcessing := False\<rparr>)
               | Inr audioData \<Rightarrow>
                   (case play of
                      None \<Rightarrow>
                        (reqs, store\<lparr>isSpeaking := True\<rparr>,
                         s2\<lparr>audioRef := Some (Some audioData), isProcessing := False\<rparr>)
                    | Some t \<Rightarrow>
                        (reqs, store\<lparr>isSpeaking := False\<rparr>,
                         s2\<lparr>audioRef := Some (Some audioData),
                             error := Some (case t of ThrownError e \<Rightarrow> err_message e
                                            | ThrownOther \<Rightarrow> ''Failed to play audio. Please try again.''),
                             isProcessing := False\<rparr>)))"

text \<open>The Audio element's \<open>onended\<close> handler.\<close>

definition onended :: "app_store \<Rightarrow> app_store" where
  "onended store = store\<lparr>isSpeaking := False\<rparr>"

section \<open>The page (App.tsx)\<close>

text \<open>
  App mounts two VoiceControls, one of type input on the textarea and one of type output on
  the text block; both read the one store. A click on a side's button runs that side's
  handler; the button is not rendered when the store is disabled and is disabled while
  that component is processing.
\<close>

record app =
  store :: app_store
  inputControls :: voice_controls
  outputControls :: voice_controls

definition sample_text :: jsstring where
  "sample_text =
     ustr ''This is a sample text that can be read aloud. Click the speaker icon to hear it.''"

definition initial_app :: app where
  "initial_app =
     \<lparr>store = \<lparr>isEnabled = True, isSpeaking = False, isListening = False\<rparr>,
      inputControls = mounted (TextArea []),
      outputControls = mounted (Div sample_text)\<rparr>"




section \<open>Networks for the examples\<close>

text \<open>
  A relay that answers every request well; one that answers the health check at once and
  the main request after 45 seconds; and one where the health check passes and the main
  request then fails in a browser whose fetch rejects with the message "Load failed".
\<close>

definition ok_response :: http_response where
  "ok_response =
     \<lparr>resp_ok = True, resp_json = Some \<lparr>jp_error = None, jp_text = ustr ''hello''\<rparr>,
      resp_bytes = [73, 68, 51]\<rparr>"

definition quick_net :: network where
  "quick_net = (\<lambda>url init. \<lparr>latency = 20, outcome = Resolved ok_response\<rparr>)"

definition slow_net :: network where
  "slow_net =
     (\<lambda>url init. if url = ''/api/health'' then \<lparr>latency = 20, outcome = Resolved ok_response\<rparr>
                  else \<lparr>latency = 45000, outcome = Resolved ok_response\<rparr>)"

definition dropping_net :: network where
  "dropping_net =
     (\<lambda>url init. if url = ''/api/health'' then \<lparr>latency = 20, outcome = Resolved ok_response\<rparr>
                  else \<lparr>latency = 20, outcome = Rejected (TypeError ''Load failed'')\<rparr>)"




section \<open>Properties of the relay server\<close>

subsection \<open>The rate gate\<close>

lemma res_body_too_many:
  "res_body too_many_requests = JsonError ''Too many requests. Please wait a moment.''"
  by (simp add: too_many_requests_def json_def set_header_def set_status_def)

lemma res_body_speech_catch:
  "res_body (speech_catch e) \<noteq> JsonError ''Too many requests. Please wait a moment.''"
  by (simp add: speech_catch_def json_def set_header_def set_status_def Let_def)

lemma res_body_transcribe_catch:
  "res_body (transcribe_catch e) \<noteq> JsonError ''Too many requests. Please wait a moment.''"
  by (simp add: transcribe_catch_def json_def set_header_def set_status_def Let_def)

lemma speech_validated_not_gate:
  "fst (speech_validated P b) \<noteq> too_many_requests"
proof
  assume "fst (speech_validated P b) = too_many_requests"
  then have "res_body (fst (speech_validated P b)) = JsonError ''Too many requests. Please wait a moment.''"
    by (simp add: res_body_too_many)
  then show False
    by (simp add: speech_validated_def Let_def res_body_speech_catch json_def set_header_def
        set_status_def send_def split: if_splits jsval.splits sum.splits)
qed

lemma checkRateLimit_cases:
  "checkRateLimit ip now rl = (False, rl) \<or> checkRateLimit ip now rl = (True, rl(ip \<mapsto> now))"
  by (simp add: checkRateLimit_def Let_def)

lemma speech_handler_gate:
  "snd (speech_handler P ip now b rl) = snd (checkRateLimit ip now rl)"
  "fst (fst (speech_handler P ip now b rl)) = too_many_requests \<longleftrightarrow> \<not> fst (checkRateLimit ip now rl)"
  using checkRateLimit_cases [of ip now rl]
  by (auto simp: speech_handler_def speech_validated_not_gate)

lemma transcribe_handler_gate:
  "snd (transcribe_handler P ip now f rl) = snd (checkRateLimit ip now rl)"
  "fst (fst (transcribe_handler P ip now f rl)) = too_many_requests \<longleftrightarrow> \<not> fst (checkRateLimit ip now rl)"
proof -
  show "snd (transcribe_handler P ip now f rl) = snd (checkRateLimit ip now rl)"
    using checkRateLimit_cases [of ip now rl]
    by (auto simp: transcribe_handler_def Let_def split: option.splits sum.splits)
  have "res_body (fst (fst (transcribe_handler P ip now f rl))) = JsonError ''Too many requests. Please wait a moment.''
        \<longleftrightarrow> \<not> fst (checkRateLimit ip now rl)"
    using checkRateLimit_cases [of ip now rl]
    by (auto simp: transcribe_handler_def Let_def res_body_too_many res_body_transcribe_catch
        json_def set_header_def set_status_def split: option.splits sum.splits if_splits)
  moreover have "\<not> fst (checkRateLimit ip now rl) \<Longrightarrow> fst (fst (transcribe_handler P ip now f rl)) = too_many_requests"
    using checkRateLimit_cases [of ip now rl]
    by (auto simp: transcribe_handler_def)
  ultimately show "fst (fst (transcribe_handler P ip now f rl)) = too_many_requests \<longleftrightarrow> \<not> fst (checkRateLimit ip now rl)"
    using res_body_too_many by metis
qed

lemma serve_gate:
  assumes "gated req"
  shows "snd (serve P rl (ip, now, req)) = snd (checkRateLimit ip now rl)"
    and "fst (fst (serve P rl (ip, now, req))) = too_many_requests \<longleftrightarrow> \<not> fst (checkRateLimit ip now rl)"
  using assms by (cases req; simp add: speech_handler_gate transcribe_handler_gate)+

lemma serve_ungated: "\<not> gated req \<Longrightarrow> snd (serve P rl (ip, now, req)) = rl"
  by (cases req) simp_all


lemma accepted_times_Cons:
  "accepted_times k (((ip, now, req), r) # log) =
     (if ip = k \<and> gated req \<and> r \<noteq> too_many_requests then now # accepted_times k log
      else accepted_times k log)"
  by (simp add: accepted_times_def)

lemma last_accepted_Nil: "last_accepted k [] = None"
  by (simp add: last_accepted_def accepted_times_def)

lemma last_accepted_Cons:
  "last_accepted k (((ip, now, req), r) # log) =
     (case last_accepted k log of
        Some t \<Rightarrow> Some t
      | None \<Rightarrow> if ip = k \<and> gated req \<and> r \<noteq> too_many_requests then Some now else None)"
  by (simp add: last_accepted_def accepted_times_Cons)

lemma serve_store:
  "snd (serve P rl (ip, now, req)) k =
     (if ip = k \<and> gated req \<and> fst (fst (serve P rl (ip, now, req))) \<noteq> too_many_requests
      then Some now else rl k)"
proof (cases "gated req")
  case True
  show ?thesis
    using True checkRateLimit_cases [of ip now rl] serve_gate [OF True, of P rl ip now]
    by auto
next
  case False
  then show ?thesis by (simp add: serve_ungated)
qed

lemma run_store:
  "snd (run P rl as) k =
     (case last_accepted k (fst (run P rl as)) of None \<Rightarrow> rl k | Some t \<Rightarrow> Some t)"
proof (induction as arbitrary: rl)
  case Nil
  show ?case by (simp add: last_accepted_Nil)
next
  case (Cons a as)
  obtain ip now req where a: "a = (ip, now, req)" by (cases a) auto
  obtain out rl' where s: "serve P rl (ip, now, req) = (out, rl')" by (cases "serve P rl (ip, now, req)")
  obtain log rl'' where r: "run P rl' as = (log, rl'')" by (cases "run P rl' as")
  have ih: "rl'' k = (case last_accepted k log of None \<Rightarrow> rl' k | Some t \<Rightarrow> Some t)"
    using Cons.IH [of rl'] r by simp
  have st: "rl' k = (if ip = k \<and> gated req \<and> fst out \<noteq> too_many_requests then Some now else rl k)"
    using serve_store [of P rl ip now req k] s by simp
  show ?case
    using ih st by (simp add: a s r last_accepted_Cons split: option.splits)
qed

text \<open>
  Claim C1. Starting from the empty Map, after any sequence of requests and whatever the
  provider answers, the timestamp stored for a key is the time of that key's last request
  that passed the gate. A next gated request of the key is answered with the gate's 429
  exactly when fewer than 1000 ms lie between that time and now (a key with no accepted
  request passes whenever the clock reads at least 1000); a request that passes stores
  now for the key, and a rejected one leaves the Map as it was and calls no provider.
\<close>

theorem rate_gate_window:
  assumes "run P Map.empty as = (log, rl)"
    and "gated req"
    and "serve P rl (ip, now, req) = ((res, calls), rl')"
  shows "rl ip = last_accepted ip log
     \<and> (\<forall>t. last_accepted ip log = Some t \<longrightarrow> (res = too_many_requests \<longleftrightarrow> now - t < 1000))
     \<and> (last_accepted ip log = None \<and> 1000 \<le> now \<longrightarrow> res \<noteq> too_many_requests)
     \<and> res_status too_many_requests = 429
     \<and> (res \<noteq> too_many_requests \<longrightarrow> rl' = rl(ip \<mapsto> now))
     \<and> (res = too_many_requests \<longrightarrow> rl' = rl \<and> calls = [])"
proof -
  have inv: "rl ip = last_accepted ip log"
    using run_store [of P Map.empty as ip] assms(1) by (simp split: option.splits)
  have g1: "rl' = snd (checkRateLimit ip now rl)"
    using serve_gate(1) [OF assms(2), of P rl ip now] assms(3) by simp
  have g2: "res = too_many_requests \<longleftrightarrow> \<not> fst (checkRateLimit ip now rl)"
    using serve_gate(2) [OF assms(2), of P rl ip now] assms(3) by simp
  have c: "calls = []" if "res = too_many_requests"
    using that assms(2,3) g2
    by (cases req) (auto simp: transcribe_handler_def speech_handler_def split: prod.splits)
  have s429: "res_status too_many_requests = 429"
    by (simp add: too_many_requests_def json_def set_header_def set_status_def)
  show ?thesis
    using inv g1 g2 c s429 
    by (auto simp: checkRateLimit_def Let_def RATE_LIMIT_WINDOW_def split: option.splits if_splits)
qed


theorem rate_gate_window_witness:
  "last_accepted ''203.0.113.7''
      (fst (run unreachable_provider Map.empty [(''203.0.113.7'', 5000, Transcribe None)])) = Some 5000
   \<and> fst (fst (serve unreachable_provider (snd (run unreachable_provider Map.empty [(''203.0.113.7'', 5000, Transcribe None)]))
        (''203.0.113.7'', 5999, Speech JNull))) = too_many_requests
   \<and> snd (serve unreachable_provider (snd (run unreachable_provider Map.empty [(''203.0.113.7'', 5000, Transcribe None)]))
        (''203.0.113.7'', 5999, Speech JNull)) ''203.0.113.7'' = Some 5000
   \<and> fst (fst (serve unreachable_provider (snd (run unreachable_provider Map.empty [(''203.0.113.7'', 5000, Transcribe None)]))
        (''203.0.113.7'', 6000, Speech JNull))) \<noteq> too_many_requests
   \<and> snd (serve unreachable_provider (snd (run unreachable_provider Map.empty [(''203.0.113.7'', 5000, Transcribe None)]))
        (''203.0.113.7'', 6000, Speech JNull)) ''203.0.113.7'' = Some 6000"
proof -
  let ?P = unreachable_provider
  let ?as = "[(''203.0.113.7'', 5000, Transcribe None)]"
  let ?log = "fst (run ?P Map.empty ?as)"
  let ?rl = "snd (run ?P Map.empty ?as)"
  have la: "last_accepted ''203.0.113.7'' ?log = Some 5000"
    by (simp add: last_accepted_def accepted_times_def transcribe_handler_def checkRateLimit_def
        RATE_LIMIT_WINDOW_def too_many_requests_def json_def set_header_def set_status_def
        fresh_response_def)
  have r: "run ?P Map.empty ?as = (?log, ?rl)" by simp
  have g: "gated (Speech JNull)" by simp
  have s1: "serve ?P ?rl (''203.0.113.7'', 5999, Speech JNull)
    = ((fst (fst (serve ?P ?rl (''203.0.113.7'', 5999, Speech JNull))),
        snd (fst (serve ?P ?rl (''203.0.113.7'', 5999, Speech JNull)))),
       snd (serve ?P ?rl (''203.0.113.7'', 5999, Speech JNull)))" by simp
  have s2: "serve ?P ?rl (''203.0.113.7'', 6000, Speech JNull)
    = ((fst (fst (serve ?P ?rl (''203.0.113.7'', 6000, Speech JNull))),
        snd (fst (serve ?P ?rl (''203.0.113.7'', 6000, Speech JNull)))),
       snd (serve ?P ?rl (''203.0.113.7'', 6000, Speech JNull)))" by simp
  show ?thesis
    using rate_gate_window [OF r g s1] rate_gate_window [OF r g s2] la
    by (auto simp del: serve.simps run.simps)
qed

subsection \<open>POST /api/speech\<close>

lemma digitValue_digit: "d < 10 \<Longrightarrow> digitValue (digit d) = d"
  by (simp add: digitValue_def digit_def)

lemma parseDecimal_snoc: "parseDecimal (s @ [c]) = 10 * parseDecimal s + digitValue c"
  by (simp add: parseDecimal_def)

lemma parseDecimal_toString: "parseDecimal (toString n) = n"
proof (induction n rule: toString.induct)
  case (1 n)
  show ?case
  proof (cases "n < 10")
    case True
    then show ?thesis by (simp add: toString.simps [of n] parseDecimal_def digitValue_digit)
  next
    case False
    then have "toString n = toString (n div 10) @ [digit (n mod 10)]"
      by (subst toString.simps) simp
    then show ?thesis
      using 1 False by (simp add: parseDecimal_snoc digitValue_digit)
  qed
qed

lemma status_too_many: "res_status too_many_requests = 429"
  by (simp add: too_many_requests_def json_def set_header_def set_status_def)

lemma speech_catch_shape:
  "res_status (speech_catch e) = (case err_status e of None \<Rightarrow> 500 | Some s \<Rightarrow> if s = 0 then 500 else s)
   \<and> (res_body (speech_catch e) = JsonError ''Request timed out. Consider using shorter text in StackBlitz environment.''
      \<or> res_body (speech_catch e) = JsonError ''Failed to generate speech.'')"
  by (simp add: speech_catch_def Let_def json_def set_header_def set_status_def status_or_500_def)

lemma speech_catch_TypeError:
  "\<not> str_includes m ''timeout'' \<Longrightarrow> \<not> str_includes m ''socket hang up'' \<Longrightarrow>
   res_status (speech_catch (TypeError m)) = 500
   \<and> res_body (speech_catch (TypeError m)) = JsonError ''Failed to generate speech.''"
  by (simp add: speech_catch_def Let_def json_def set_header_def set_status_def status_or_500_def TypeError_def)

lemma no_timeout_1: "\<not> str_includes ''text.trim is not a function'' ''timeout''"
  "\<not> str_includes ''text.trim is not a function'' ''socket hang up''"
  by simp_all

lemma no_timeout_2: 
  "\<not> str_includes ''Cannot destructure property 'text' of 'req.body' as it is undefined.'' ''timeout''"
  "\<not> str_includes ''Cannot destructure property 'text' of 'req.body' as it is undefined.'' ''socket hang up''"
  by simp_all


lemma trim_Nil: "trim [] = []"
  by (simp add: trim_def)

lemma trim_replicate: "isWhiteSpace c \<Longrightarrow> trim (replicate n c) = []"
  by (simp add: trim_def)

lemma speech_validated_no_body:
  "b = JUndefined \<or> b = JNull \<Longrightarrow> \<exists>m. speech_validated P b = (speech_catch (TypeError m), [])
      \<and> \<not> str_includes m ''timeout'' \<and> \<not> str_includes m ''socket hang up''"
  unfolding speech_validated_def using no_timeout_2 by auto

lemma speech_validated_falsy:
  "b \<noteq> JUndefined \<Longrightarrow> b \<noteq> JNull \<Longrightarrow> \<not> truthy (getProp b ''text'') \<Longrightarrow>
   speech_validated P b = (json (JsonError ''No text provided'') (set_status 400 fresh_response), [])"
  by (simp add: speech_validated_def)

lemma speech_validated_not_string:
  "b \<noteq> JUndefined \<Longrightarrow> b \<noteq> JNull \<Longrightarrow> truthy (getProp b ''text'') \<Longrightarrow>
   \<forall>s. getProp b ''text'' \<noteq> JStr s \<Longrightarrow>
   speech_validated P b = (speech_catch (TypeError ''text.trim is not a function''), [])"
  by (cases "getProp b ''text''") (simp_all add: speech_validated_def)

lemma speech_validated_string:
  "b \<noteq> JUndefined \<Longrightarrow> b \<noteq> JNull \<Longrightarrow> getProp b ''text'' = JStr s \<Longrightarrow>
   speech_validated P b =
     (if trim s = []
      then (json (JsonError ''No text provided'') (set_status 400 fresh_response), [])
      else if length s > 4000
      then (json (JsonError ''Text too long. Maximum length is 4000 characters.'')
              (set_status 400 fresh_response), [])
      else
        let call = \<lparr>sc_model = ''tts-1'',
                      sc_voice = (if truthy (getProp b ''voice'') then getProp b ''voice''
                                  else JStr (ustr ''alloy'')),
                      sc_input = s\<rparr>
        in (case speech_create P call of
              Inl e \<Rightarrow> (speech_catch e, [SpeechCall call])
            | Inr buffer \<Rightarrow>
                (send buffer
                   (set_header ''Content-Length'' (toString (length buffer))
                      (set_header ''Content-Type'' ''audio/mpeg'' fresh_response)),
                 [SpeechCall call])))"
  by (auto simp: speech_validated_def Let_def trim_Nil)

lemma json_error_shape:
  "res_status (json (JsonError m) (set_status c fresh_response)) = c"
  "res_body (json (JsonError m) (set_status c fresh_response)) = JsonError m"
  by (simp_all add: json_def set_header_def set_status_def)

lemma audio_shape:
  "res_status (send buffer (set_header ''Content-Length'' v (set_header ''Content-Type'' ''audio/mpeg'' fresh_response))) = 200"
  "res_body (send buffer (set_header ''Content-Length'' v (set_header ''Content-Type'' ''audio/mpeg'' fresh_response))) = Binary buffer"
  "res_headers (send buffer (set_header ''Content-Length'' v (set_header ''Content-Type'' ''audio/mpeg'' fresh_response))) ''Content-Length'' = Some v"
  "res_headers (send buffer (set_header ''Content-Length'' v (set_header ''Content-Type'' ''audio/mpeg'' fresh_response))) ''Content-Type'' = Some ''audio/mpeg''"
  by (simp_all add: send_def set_header_def fresh_response_def)



text \<open>Every way \<open>speech_validated\<close> can end.\<close>

lemma speech_validated_cases:
  assumes "speech_validated P b = (res, calls)"
  shows "(res_status res = 400 \<and> calls = []
            \<and> (res_body res = JsonError ''No text provided''
               \<or> res_body res = JsonError ''Text too long. Maximum length is 4000 characters.''))
       \<or> (res_status res = 500 \<and> calls = [] \<and> res_body res = JsonError ''Failed to generate speech.'')
       \<or> (\<exists>c e. calls = [SpeechCall c] \<and> speech_create P c = Inl e \<and> res = speech_catch e)
       \<or> (\<exists>c buffer. calls = [SpeechCall c] \<and> speech_create P c = Inr buffer
            \<and> res = send buffer
                   (set_header ''Content-Length'' (toString (length buffer))
                      (set_header ''Content-Type'' ''audio/mpeg'' fresh_response)))"
proof -
  define t where "t = getProp b ''text''"
  consider (nobody) "b = JUndefined \<or> b = JNull"
    | (falsy) "b \<noteq> JUndefined" "b \<noteq> JNull" "\<not> truthy t"
    | (other) "b \<noteq> JUndefined" "b \<noteq> JNull" "truthy t" "\<forall>s. t \<noteq> JStr s"
    | (str) s where "b \<noteq> JUndefined" "b \<noteq> JNull" "t = JStr s"
    by blast
  then show ?thesis
  proof cases
    case nobody
    then obtain m where m: "speech_validated P b = (speech_catch (TypeError m), [])"
      "\<not> str_includes m ''timeout''" "\<not> str_includes m ''socket hang up''"
      using speech_validated_no_body by blast
    have "res = speech_catch (TypeError m)" "calls = []" using assms m(1) by simp_all
    then show ?thesis using speech_catch_TypeError [OF m(2,3)] by simp
  next
    case falsy
    have "res = json (JsonError ''No text provided'') (set_status 400 fresh_response)" "calls = []"
      using assms speech_validated_falsy [OF falsy [unfolded t_def], of P] by simp_all
    then show ?thesis by (simp add: json_error_shape)
  next
    case other
    have "res = speech_catch (TypeError ''text.trim is not a function'')" "calls = []"
      using assms speech_validated_not_string [OF other [unfolded t_def], of P] by simp_all
    then show ?thesis using speech_catch_TypeError [OF no_timeout_1] by simp
  next
    case str
    note eq = speech_validated_string [OF str [unfolded t_def], of P]
    show ?thesis
    proof (cases "trim s = []")
      case True
      have "res = json (JsonError ''No text provided'') (set_status 400 fresh_response)" "calls = []"
        using assms eq True by simp_all
      then show ?thesis by (simp add: json_error_shape)
    next
      case False
      note ne = this
      show ?thesis
      proof (cases "length s > 4000")
        case True
        have "res = json (JsonError ''Text too long. Maximum length is 4000 characters.'')
                (set_status 400 fresh_response)" "calls = []"
          using assms eq True ne by simp_all
        then show ?thesis by (simp add: json_error_shape)
      next
        case False
        define c where "c = \<lparr>sc_model = ''tts-1'',
                      sc_voice = (if truthy (getProp b ''voice'') then getProp b ''voice''
                                  else JStr (ustr ''alloy'')),
                      sc_input = s\<rparr>"
        have r: "(res, calls) = (case speech_create P c of
              Inl e \<Rightarrow> (speech_catch e, [SpeechCall c])
            | Inr buffer \<Rightarrow>
                (send buffer
                   (set_header ''Content-Length'' (toString (length buffer))
                      (set_header ''Content-Type'' ''audio/mpeg'' fresh_response)),
                 [SpeechCall c]))"
          unfolding c_def using assms eq False ne by (simp add: Let_def split del: if_split)
        show ?thesis
        proof (cases "speech_create P c")
          case (Inl e)
          then have "calls = [SpeechCall c]" "res = speech_catch e" using r by simp_all
          then show ?thesis using Inl by simp
        next
          case (Inr buffer)
          then have "calls = [SpeechCall c]" "res = send buffer
                   (set_header ''Content-Length'' (toString (length buffer))
                      (set_header ''Content-Type'' ''audio/mpeg'' fresh_response))" using r by simp_all
          then show ?thesis using Inr by simp
        qed
      qed
    qed
  qed
qed

lemma speech_handler_unfold:
  "speech_handler P ip now b rl =
     (if fst (checkRateLimit ip now rl) then (speech_validated P b, rl(ip \<mapsto> now))
      else ((too_many_requests, []), rl))"
  by (simp add: speech_handler_def checkRateLimit_def Let_def)

lemma speech_catch_not_binary: "res_body (speech_catch e) \<noteq> Binary buffer"
  by (simp add: speech_catch_def Let_def json_def set_header_def set_status_def)

text \<open>
  Claim C7. Whenever POST /api/speech answers with the binary body (the only success path:
  the provider returned the bytes), the status is 200, Content-Type is audio/mpeg, and
  Content-Length is the decimal numeral of the number of bytes sent, which reads back as
  exactly that number.
\<close>

theorem speech_content_length:
  assumes "speech_handler P ip now reqBody rl = ((res, calls), rl')"
    and "res_body res = Binary buffer"
  shows "res_status res = 200
     \<and> res_headers res ''Content-Type'' = Some ''audio/mpeg''
     \<and> res_headers res ''Content-Length'' = Some (toString (length buffer))
     \<and> parseDecimal (toString (length buffer)) = length buffer
     \<and> (\<exists>c. calls = [SpeechCall c] \<and> speech_create P c = Inr buffer)"
proof -
  have v: "speech_validated P reqBody = (res, calls)"
    using assms by (auto simp: speech_handler_unfold res_body_too_many split: if_splits)
  from speech_validated_cases [OF v] assms(2)
  obtain c where "calls = [SpeechCall c]" "speech_create P c = Inr buffer"
    "res = send buffer
             (set_header ''Content-Length'' (toString (length buffer))
                (set_header ''Content-Type'' ''audio/mpeg'' fresh_response))"
    by (auto simp: audio_shape speech_catch_not_binary)
  then show ?thesis
    by (simp add: audio_shape parseDecimal_toString)
qed

theorem speech_content_length_witness:
  "res_body (fst (fst (speech_handler canned_provider ''203.0.113.7'' 5000
       (JObj [(ustr ''text'', JStr (ustr ''hello''))]) Map.empty))) = Binary [73, 68, 51]
   \<and> res_headers (fst (fst (speech_handler canned_provider ''203.0.113.7'' 5000
       (JObj [(ustr ''text'', JStr (ustr ''hello''))]) Map.empty))) ''Content-Length'' = Some ''3''
   \<and> res_headers (fst (fst (speech_handler canned_provider ''203.0.113.7'' 5000
       (JObj [(ustr ''text'', JStr (ustr ''hello''))]) Map.empty))) ''Content-Type'' = Some ''audio/mpeg''"
proof -
  let ?out = "speech_handler canned_provider ''203.0.113.7'' 5000
       (JObj [(ustr ''text'', JStr (ustr ''hello''))]) Map.empty"
  have t: "trim (ustr ''hello'') \<noteq> []"
    by (simp add: trim_def ustr_def isWhiteSpace_def)
  have b: "res_body (fst (fst ?out)) = Binary [73, 68, 51]"
    using t
    by (simp add: speech_handler_unfold checkRateLimit_def RATE_LIMIT_WINDOW_def
        speech_validated_def canned_provider_def Let_def audio_shape ustr_def)
  have e: "?out = ((fst (fst ?out), snd (fst ?out)), snd ?out)" by simp
  have "toString (length [73, 68, 51 :: byte]) = ''3''"
    by code_simp
  then show ?thesis
    using speech_content_length [OF e b] b by simp
qed

lemma speech_catch_exact:
  "res_status (speech_catch e) = (case err_status e of None \<Rightarrow> 500 | Some s \<Rightarrow> if s = 0 then 500 else s)"
  "res_body (speech_catch e) =
     JsonError (if str_includes (err_message e) ''timeout'' \<or> str_includes (err_message e) ''socket hang up''
                then ''Request timed out. Consider using shorter text in StackBlitz environment.''
                else ''Failed to generate speech.'')"
  by (simp_all add: speech_catch_def Let_def json_def set_header_def set_status_def status_or_500_def)

text \<open>
  Claim C4, amended. For a request to POST /api/speech whose text is absent or a string:
  when the rate gate rejects it the answer is the gate's 429 and no provider call is made;
  when it passes and the text is missing, empty, blank after trimming or longer than 4000
  the answer is 400 with no provider call; otherwise exactly one provider call is made,
  and when that call fails the status is the provider error's own status when it is
  present and non-zero and 500 otherwise, with the timeout message when the error message
  contains "timeout" or "socket hang up" and the generic message otherwise; when the call
  returns, the answer is 200 with the bytes. As stated (only 400, 429, 500) the claim
  fails: a provider failure with status 401 is answered with 401.
\<close>

theorem speech_failure_status:
  "(\<not> fst (checkRateLimit ip now rl) \<longrightarrow>
      fst (speech_handler P ip now reqBody rl) = (too_many_requests, [])
      \<and> res_status too_many_requests = 429
      \<and> res_body too_many_requests = JsonError ''Too many requests. Please wait a moment.'')
   \<and> (fst (checkRateLimit ip now rl) \<and> reqBody \<noteq> JUndefined \<and> reqBody \<noteq> JNull
        \<and> \<not> truthy (getProp reqBody ''text'') \<longrightarrow>
      snd (fst (speech_handler P ip now reqBody rl)) = []
      \<and> res_status (fst (fst (speech_handler P ip now reqBody rl))) = 400
      \<and> res_body (fst (fst (speech_handler P ip now reqBody rl))) = JsonError ''No text provided'')
   \<and> (\<forall>s. fst (checkRateLimit ip now rl) \<and> getProp reqBody ''text'' = JStr s
        \<and> (trim s = [] \<or> 4000 < length s) \<longrightarrow>
      snd (fst (speech_handler P ip now reqBody rl)) = []
      \<and> res_status (fst (fst (speech_handler P ip now reqBody rl))) = 400
      \<and> res_body (fst (fst (speech_handler P ip now reqBody rl))) =
          JsonError (if trim s = [] then ''No text provided''
                     else ''Text too long. Maximum length is 4000 characters.''))
   \<and> (\<forall>s. fst (checkRateLimit ip now rl) \<and> getProp reqBody ''text'' = JStr s
        \<and> trim s \<noteq> [] \<and> length s \<le> 4000 \<longrightarrow>
      (let call = \<lparr>sc_model = ''tts-1'',
                     sc_voice = (if truthy (getProp reqBody ''voice'') then getProp reqBody ''voice''
                                 else JStr (ustr ''alloy'')),
                     sc_input = s\<rparr>
       in snd (fst (speech_handler P ip now reqBody rl)) = [SpeechCall call]
          \<and> (\<forall>e. speech_create P call = Inl e \<longrightarrow>
                res_status (fst (fst (speech_handler P ip now reqBody rl))) =
                  (case err_status e of None \<Rightarrow> 500 | Some c \<Rightarrow> if c = 0 then 500 else c)
                \<and> res_body (fst (fst (speech_handler P ip now reqBody rl))) =
                  JsonError (if str_includes (err_message e) ''timeout''
                                \<or> str_includes (err_message e) ''socket hang up''
                             then ''Request timed out. Consider using shorter text in StackBlitz environment.''
                             else ''Failed to generate speech.''))
          \<and> (\<forall>buffer. speech_create P call = Inr buffer \<longrightarrow>
                res_status (fst (fst (speech_handler P ip now reqBody rl))) = 200
                \<and> res_body (fst (fst (speech_handler P ip now reqBody rl))) = Binary buffer)))"
proof -
  have gate: "fst (speech_handler P ip now reqBody rl) = (too_many_requests, [])"
    if "\<not> fst (checkRateLimit ip now rl)"
    using that by (simp add: speech_handler_unfold)
  have pass: "fst (speech_handler P ip now reqBody rl) = speech_validated P reqBody"
    if "fst (checkRateLimit ip now rl)"
    using that by (simp add: speech_handler_unfold)
  have falsy: "snd (speech_validated P reqBody) = []
      \<and> res_status (fst (speech_validated P reqBody)) = 400
      \<and> res_body (fst (speech_validated P reqBody)) = JsonError ''No text provided''"
    if "reqBody \<noteq> JUndefined" "reqBody \<noteq> JNull" "\<not> truthy (getProp reqBody ''text'')"
    using speech_validated_falsy [OF that, of P] by (simp add: json_error_shape)
  have nb: "reqBody \<noteq> JUndefined \<and> reqBody \<noteq> JNull" if "getProp reqBody ''text'' = JStr s" for s
    using that by auto
  have bad: "snd (speech_validated P reqBody) = []
      \<and> res_status (fst (speech_validated P reqBody)) = 400
      \<and> res_body (fst (speech_validated P reqBody)) =
          JsonError (if trim s = [] then ''No text provided''
                     else ''Text too long. Maximum length is 4000 characters.'')"
    if "getProp reqBody ''text'' = JStr s" "trim s = [] \<or> 4000 < length s" for s
    using that(2) nb [OF that(1)]
    by (auto simp: speech_validated_string [OF _ _ that(1)] json_error_shape)
  have good: "(let call = \<lparr>sc_model = ''tts-1'',
                     sc_voice = (if truthy (getProp reqBody ''voice'') then getProp reqBody ''voice''
                                 else JStr (ustr ''alloy'')),
                     sc_input = s\<rparr>
       in snd (speech_validated P reqBody) = [SpeechCall call]
          \<and> (\<forall>e. speech_create P call = Inl e \<longrightarrow>
                res_status (fst (speech_validated P reqBody)) =
                  (case err_status e of None \<Rightarrow> 500 | Some c \<Rightarrow> if c = 0 then 500 else c)
                \<and> res_body (fst (speech_validated P reqBody)) =
                  JsonError (if str_includes (err_message e) ''timeout''
                                \<or> str_includes (err_message e) ''socket hang up''
                             then ''Request timed out. Consider using shorter text in StackBlitz environment.''
                             else ''Failed to generate speech.''))
          \<and> (\<forall>buffer. speech_create P call = Inr buffer \<longrightarrow>
                res_status (fst (speech_validated P reqBody)) = 200
                \<and> res_body (fst (speech_validated P reqBody)) = Binary buffer))"
    if "getProp reqBody ''text'' = JStr s" "trim s \<noteq> []" "length s \<le> 4000" for s
  proof -
    define call where "call = \<lparr>sc_model = ''tts-1'',
                     sc_voice = (if truthy (getProp reqBody ''voice'') then getProp reqBody ''voice''
                                 else JStr (ustr ''alloy'')),
                     sc_input = s\<rparr>"
    have eq: "speech_validated P reqBody =
        (case speech_create P call of
              Inl e \<Rightarrow> (speech_catch e, [SpeechCall call])
            | Inr buffer \<Rightarrow>
                (send buffer
                   (set_header ''Content-Length'' (toString (length buffer))
                      (set_header ''Content-Type'' ''audio/mpeg'' fresh_response)),
                 [SpeechCall call]))"
      unfolding call_def using that(2,3) nb [OF that(1)]
      by (simp add: speech_validated_string [OF _ _ that(1)] Let_def split del: if_split)
    have "snd (speech_validated P reqBody) = [SpeechCall call]
          \<and> (\<forall>e. speech_create P call = Inl e \<longrightarrow>
                res_status (fst (speech_validated P reqBody)) =
                  (case err_status e of None \<Rightarrow> 500 | Some c \<Rightarrow> if c = 0 then 500 else c)
                \<and> res_body (fst (speech_validated P reqBody)) =
                  JsonError (if str_includes (err_message e) ''timeout''
                                \<or> str_includes (err_message e) ''socket hang up''
                             then ''Request timed out. Consider using shorter text in StackBlitz environment.''
                             else ''Failed to generate speech.''))
          \<and> (\<forall>buffer. speech_create P call = Inr buffer \<longrightarrow>
                res_status (fst (speech_validated P reqBody)) = 200
                \<and> res_body (fst (speech_validated P reqBody)) = Binary buffer)"
      unfolding eq
      by (cases "speech_create P call") (simp_all add: speech_catch_exact audio_shape split del: if_split)
    then show ?thesis unfolding call_def Let_def .
  qed
  show ?thesis
  proof (intro conjI allI impI, goal_cases)
    case 1
    then show ?case by (rule gate)
  next
    case 2
    show ?case by (rule status_too_many)
  next
    case 3
    show ?case by (rule res_body_too_many)
  next
    case 4
    then show ?case using falsy pass by simp
  next
    case 5
    then show ?case using falsy pass by simp
  next
    case 6
    then show ?case using falsy pass by simp
  next
    case (7 s)
    then show ?case using bad [of s] pass by simp
  next
    case (8 s)
    then show ?case using bad [of s] pass by simp
  next
    case (9 s)
    then show ?case using bad [of s] pass by (simp split del: if_split)
  next
    case (10 s)
    then show ?case using good [of s] pass by (simp add: Let_def split del: if_split)
  qed
qed

theorem speech_failure_status_counterexample:
  "res_status (fst (fst (speech_handler unauthorized_provider ''203.0.113.7'' 5000
       (JObj [(ustr ''text'', JStr (ustr ''hello''))]) Map.empty))) = 401
   \<and> res_body (fst (fst (speech_handler unauthorized_provider ''203.0.113.7'' 5000
       (JObj [(ustr ''text'', JStr (ustr ''hello''))]) Map.empty))) = JsonError ''Failed to generate speech.''
   \<and> (401::nat) \<notin> {400, 429, 500}"
proof -
  have t: "trim (ustr ''hello'') \<noteq> []"
    by (simp add: trim_def ustr_def isWhiteSpace_def)
  show ?thesis
    using t
    by (simp add: speech_handler_unfold checkRateLimit_def RATE_LIMIT_WINDOW_def
        speech_validated_def unauthorized_provider_def Let_def speech_catch_def status_or_500_def
        json_error_shape ustr_def)
qed

theorem speech_failure_status_witness:
  "fst (speech_handler unauthorized_provider ''203.0.113.7'' 5500
       (JObj [(ustr ''text'', JStr (ustr ''hello''))]) [''203.0.113.7'' \<mapsto> 5000])
     = (too_many_requests, [])
   \<and> res_status (fst (fst (speech_handler unauthorized_provider ''203.0.113.7'' 5000
       (JObj []) Map.empty))) = 400
   \<and> res_body (fst (fst (speech_handler unauthorized_provider ''203.0.113.7'' 5000
       (JObj [(ustr ''text'', JStr (replicate 3 32))]) Map.empty))) = JsonError ''No text provided''
   \<and> res_status (fst (fst (speech_handler unauthorized_provider ''203.0.113.7'' 5000
       (JObj [(ustr ''text'', JStr (ustr ''hello''))]) Map.empty))) = 401
   \<and> snd (fst (speech_handler unauthorized_provider ''203.0.113.7'' 5000
       (JObj [(ustr ''text'', JStr (ustr ''hello''))]) Map.empty)) =
       [SpeechCall \<lparr>sc_model = ''tts-1'', sc_voice = JStr (ustr ''alloy''), sc_input = ustr ''hello''\<rparr>]"
proof -
  let ?ip = "''203.0.113.7''"
  let ?hello = "JObj [(ustr ''text'', JStr (ustr ''hello''))]"
  let ?blank = "JObj [(ustr ''text'', JStr (replicate 3 32))]"
  have r: "\<not> fst (checkRateLimit ?ip 5500 [?ip \<mapsto> 5000])"
    by (simp add: checkRateLimit_def RATE_LIMIT_WINDOW_def)
  have g: "fst (checkRateLimit ?ip 5000 Map.empty)"
    by (simp add: checkRateLimit_def RATE_LIMIT_WINDOW_def)
  have m: "JObj [] \<noteq> JUndefined" "JObj [] \<noteq> JNull" "\<not> truthy (getProp (JObj []) ''text'')"
    by simp_all
  have b: "getProp ?blank ''text'' = JStr (replicate 3 32)" "trim (replicate 3 32) = []"
    by (simp_all add: trim_replicate isWhiteSpace_def)
  have h: "getProp ?hello ''text'' = JStr (ustr ''hello'')" "trim (ustr ''hello'') \<noteq> []"
    "length (ustr ''hello'') \<le> 4000" "\<not> truthy (getProp ?hello ''voice'')"
    by (simp_all add: trim_def ustr_def isWhiteSpace_def)
  have p: "speech_create unauthorized_provider c =
      Inl \<lparr>err_status = Some 401, err_name = ''Error'', err_message = ''401 Incorrect API key provided''\<rparr>" for c
    by (simp add: unauthorized_provider_def)
  note R = speech_failure_status [of ?ip 5500 "[?ip \<mapsto> 5000]" unauthorized_provider ?hello]
  note M = speech_failure_status [of ?ip 5000 Map.empty unauthorized_provider "JObj []"]
  note B = speech_failure_status [of ?ip 5000 Map.empty unauthorized_provider ?blank]
  note H = speech_failure_status [of ?ip 5000 Map.empty unauthorized_provider ?hello]
  have 1: "fst (speech_handler unauthorized_provider ?ip 5500 ?hello [?ip \<mapsto> 5000]) = (too_many_requests, [])"
    using R [THEN conjunct1, THEN mp, OF r] by (rule conjunct1)
  have mh: "fst (checkRateLimit ?ip 5000 Map.empty) \<and> JObj [] \<noteq> JUndefined \<and> JObj [] \<noteq> JNull
        \<and> \<not> truthy (getProp (JObj []) ''text'')"
    using g m by (intro conjI)
  have 2: "res_status (fst (fst (speech_handler unauthorized_provider ?ip 5000 (JObj []) Map.empty))) = 400"
    using M [THEN conjunct2, THEN conjunct1, THEN mp, OF mh] by (elim conjE)
  have bh: "fst (checkRateLimit ?ip 5000 Map.empty) \<and> getProp ?blank ''text'' = JStr (replicate 3 32)
        \<and> (trim (replicate 3 32) = [] \<or> 4000 < length (replicate 3 (32::nat)))"
    using g b by (intro conjI disjI1)
  have 3: "res_body (fst (fst (speech_handler unauthorized_provider ?ip 5000 ?blank Map.empty))) =
      JsonError ''No text provided''"
    using B [THEN conjunct2, THEN conjunct2, THEN conjunct1, THEN spec, THEN mp, OF bh] b(2)
    by simp
  have hh: "fst (checkRateLimit ?ip 5000 Map.empty) \<and> getProp ?hello ''text'' = JStr (ustr ''hello'')
        \<and> trim (ustr ''hello'') \<noteq> [] \<and> length (ustr ''hello'') \<le> 4000"
    using g h(1,2,3) by (intro conjI)
  note L = H [THEN conjunct2, THEN conjunct2, THEN conjunct2, THEN spec, THEN mp, OF hh, unfolded Let_def]
  have 4: "snd (fst (speech_handler unauthorized_provider ?ip 5000 ?hello Map.empty)) =
       [SpeechCall \<lparr>sc_model = ''tts-1'', sc_voice = JStr (ustr ''alloy''), sc_input = ustr ''hello''\<rparr>]"
    using L [THEN conjunct1] h(4) by (simp only: if_False)
  have 5: "res_status (fst (fst (speech_handler unauthorized_provider ?ip 5000 ?hello Map.empty))) = 401"
    using L [THEN conjunct2, THEN conjunct1, THEN spec, THEN mp, OF p, THEN conjunct1]
    by simp
  show ?thesis using 1 2 3 4 5 by (simp only: simp_thms)
qed

lemma trim_replicate_other: "\<not> isWhiteSpace c \<Longrightarrow> trim (replicate n c) = replicate n c"
  by (simp add: trim_def)

text \<open>
  Claim C6, amended. A request that passes the gate and whose text is a string of more than
  4000 code units is answered with 400 and no provider call; the message is
  "Text too long. Maximum length is 4000 characters." unless the text is blank after
  trimming, in which case the earlier check answers "No text provided". As stated the claim
  fails for 4001 spaces.
\<close>

theorem speech_over_length:
  assumes "fst (checkRateLimit ip now rl)"
    and "getProp reqBody ''text'' = JStr s"
    and "length s > 4000"
  shows "res_status (fst (fst (speech_handler P ip now reqBody rl))) = 400
     \<and> snd (fst (speech_handler P ip now reqBody rl)) = []
     \<and> res_body (fst (fst (speech_handler P ip now reqBody rl))) =
         JsonError (if trim s = [] then ''No text provided''
                    else ''Text too long. Maximum length is 4000 characters.'')"
proof -
  have nb: "reqBody \<noteq> JUndefined" "reqBody \<noteq> JNull"
    using assms(2) by auto
  show ?thesis
    using assms(1,3)
    by (simp add: speech_handler_unfold speech_validated_string [OF nb assms(2)] json_error_shape)
qed

theorem speech_over_length_counterexample:
  "fst (checkRateLimit ''203.0.113.7'' 5000 Map.empty)
   \<and> length (replicate 4001 (32::nat)) > 4000
   \<and> res_body (fst (fst (speech_handler unreachable_provider ''203.0.113.7'' 5000
        (JObj [(ustr ''text'', JStr (replicate 4001 32))]) Map.empty)))
      = JsonError ''No text provided''
   \<and> res_body (fst (fst (speech_handler unreachable_provider ''203.0.113.7'' 5000
        (JObj [(ustr ''text'', JStr (replicate 4001 32))]) Map.empty)))
      \<noteq> JsonError ''Text too long. Maximum length is 4000 characters.''"
proof -
  have w: "isWhiteSpace 32" by (simp add: isWhiteSpace_def)
  have g: "fst (checkRateLimit ''203.0.113.7'' 5000 Map.empty)"
    by (simp add: checkRateLimit_def RATE_LIMIT_WINDOW_def)
  have p: "getProp (JObj [(ustr ''text'', JStr (replicate 4001 32))]) ''text'' = JStr (replicate 4001 32)"
    by simp
  have nb: "JObj [(ustr ''text'', JStr (replicate 4001 32))] \<noteq> JUndefined"
     "JObj [(ustr ''text'', JStr (replicate 4001 32))] \<noteq> JNull" by simp_all
  show ?thesis
    using g by (simp add: speech_handler_unfold speech_validated_string [OF nb p]
        trim_replicate [OF w] json_error_shape)
qed

theorem speech_over_length_witness:
  "res_status (fst (fst (speech_handler unreachable_provider ''203.0.113.7'' 5000
        (JObj [(ustr ''text'', JStr (replicate 4001 97))]) Map.empty))) = 400
   \<and> snd (fst (speech_handler unreachable_provider ''203.0.113.7'' 5000
        (JObj [(ustr ''text'', JStr (replicate 4001 97))]) Map.empty)) = []
   \<and> res_body (fst (fst (speech_handler unreachable_provider ''203.0.113.7'' 5000
        (JObj [(ustr ''text'', JStr (replicate 4001 97))]) Map.empty)))
      = JsonError ''Text too long. Maximum length is 4000 characters.''"
proof -
  have w: "\<not> isWhiteSpace 97" by (simp add: isWhiteSpace_def)
  have g: "fst (checkRateLimit ''203.0.113.7'' 5000 Map.empty)"
    by (simp add: checkRateLimit_def RATE_LIMIT_WINDOW_def)
  have p: "getProp (JObj [(ustr ''text'', JStr (replicate 4001 97))]) ''text'' = JStr (replicate 4001 97)"
    by simp
  have l: "length (replicate 4001 (97::nat)) > 4000" by simp
  show ?thesis
    using speech_over_length [OF g p l, of unreachable_provider]
    by (simp add: trim_replicate_other [OF w])
qed

section \<open>Properties of the client gateway\<close>

lemma health_url: "API_BASE_URL @ ''/health'' = ''/api/health''"
  "API_BASE_URL @ ''/transcribe'' = ''/api/transcribe''"
  "API_BASE_URL @ ''/speech'' = ''/api/speech''"
  by (simp_all add: API_BASE_URL_def)

lemma healthCheck_Inr:
  "healthCheck net = Inr () \<longleftrightarrow> (\<exists>r. fetch net ''/api/health'' plain_get = Resolved r \<and> resp_ok r)"
  by (auto simp: healthCheck_def health_url split: fetch_outcome.splits)

lemma healthCheck_Inl:
  "healthCheck net = Inl e \<Longrightarrow> e = server_connection_failed"
  by (auto simp: healthCheck_def split: fetch_outcome.splits if_splits)

lemma gateway_catch_scf: "gateway_catch server_connection_failed = server_connection_failed"
  by (simp add: gateway_catch_def)

lemma transcribeAudio_down:
  assumes "\<not> (\<exists>r. fetch net ''/api/health'' plain_get = Resolved r \<and> resp_ok r)"
  shows "transcribeAudio net audioBlob = ([(''/api/health'', plain_get)], Inl server_connection_failed)"
proof -
  obtain e where "healthCheck net = Inl e"
    using assms healthCheck_Inr [of net] by (cases "healthCheck net") auto
  then show ?thesis
    using healthCheck_Inl [of net e] by (simp add: transcribeAudio_def health_url gateway_catch_scf)
qed

lemma generateSpeech_down:
  assumes "\<not> (\<exists>r. fetch net ''/api/health'' plain_get = Resolved r \<and> resp_ok r)"
  shows "generateSpeech net text = ([(''/api/health'', plain_get)], Inl server_connection_failed)"
proof -
  obtain e where "healthCheck net = Inl e"
    using assms healthCheck_Inr [of net] by (cases "healthCheck net") auto
  then show ?thesis
    using healthCheck_Inl [of net e] by (simp add: generateSpeech_def health_url gateway_catch_scf)
qed

lemma transcribeAudio_up:
  assumes "\<exists>r. fetch net ''/api/health'' plain_get = Resolved r \<and> resp_ok r"
  shows "fst (transcribeAudio net audioBlob) =
           [(''/api/health'', plain_get), (''/api/transcribe'', transcribe_request audioBlob)]"
    and "fetch net ''/api/transcribe'' (transcribe_request audioBlob) = Rejected e \<Longrightarrow>
         snd (transcribeAudio net audioBlob) = Inl (gateway_catch e)"
proof -
  have h: "healthCheck net = Inr ()" using assms healthCheck_Inr by blast
  show "fst (transcribeAudio net audioBlob) =
           [(''/api/health'', plain_get), (''/api/transcribe'', transcribe_request audioBlob)]"
    by (simp add: transcribeAudio_def h health_url Let_def)
  show "snd (transcribeAudio net audioBlob) = Inl (gateway_catch e)"
    if "fetch net ''/api/transcribe'' (transcribe_request audioBlob) = Rejected e"
    using that by (simp add: transcribeAudio_def h health_url Let_def)
qed

lemma generateSpeech_up:
  assumes "\<exists>r. fetch net ''/api/health'' plain_get = Resolved r \<and> resp_ok r"
  shows "fst (generateSpeech net text) =
           [(''/api/health'', plain_get), (''/api/speech'', speech_request text)]"
    and "fetch net ''/api/speech'' (speech_request text) = Rejected e \<Longrightarrow>
         snd (generateSpeech net text) = Inl (gateway_catch e)"
proof -
  have h: "healthCheck net = Inr ()" using assms healthCheck_Inr by blast
  show "fst (generateSpeech net text) =
           [(''/api/health'', plain_get), (''/api/speech'', speech_request text)]"
    by (simp add: generateSpeech_def h health_url Let_def)
  show "snd (generateSpeech net text) = Inl (gateway_catch e)"
    if "fetch net ''/api/speech'' (speech_request text) = Rejected e"
    using that by (simp add: generateSpeech_def h health_url Let_def)
qed

text \<open>
  What both gateway operations do around the health check. When the health fetch is
  rejected or its response is not ok, each operation has issued only that one request and
  throws the "Server connection failed" error. When the health check passes, each has
  issued the health request and then its main request; a rejected main fetch whose message
  is exactly "Failed to fetch" is thrown as "Server connection failed", and the outer catch
  passes any other rejection on as it is.
\<close>

lemma gateway_liveness_first:
  "(\<not> (\<exists>r. fetch net ''/api/health'' plain_get = Resolved r \<and> resp_ok r) \<longrightarrow>
      transcribeAudio net audioBlob = ([(''/api/health'', plain_get)], Inl server_connection_failed)
      \<and> generateSpeech net text = ([(''/api/health'', plain_get)], Inl server_connection_failed))
   \<and> ((\<exists>r. fetch net ''/api/health'' plain_get = Resolved r \<and> resp_ok r) \<longrightarrow>
        fst (transcribeAudio net audioBlob) =
           [(''/api/health'', plain_get), (''/api/transcribe'', transcribe_request audioBlob)]
        \<and> fst (generateSpeech net text) =
           [(''/api/health'', plain_get), (''/api/speech'', speech_request text)]
        \<and> (\<forall>e. fetch net ''/api/transcribe'' (transcribe_request audioBlob) = Rejected e \<longrightarrow>
           snd (transcribeAudio net audioBlob) =
             Inl (if err_message e = ''Failed to fetch'' then server_connection_failed else e))
        \<and> (\<forall>e. fetch net ''/api/speech'' (speech_request text) = Rejected e \<longrightarrow>
           snd (generateSpeech net text) =
             Inl (if err_message e = ''Failed to fetch'' then server_connection_failed else e)))"
  using transcribeAudio_down [of net audioBlob] generateSpeech_down [of net "text"]
    transcribeAudio_up [of net audioBlob] generateSpeech_up [of net "text"]
  by (simp add: gateway_catch_def)

lemma gateway_liveness_first_example:
  "transcribeAudio (\<lambda>url init. \<lparr>latency = 20, outcome = Rejected (TypeError ''Failed to fetch'')\<rparr>) [1, 2, 3]
     = ([(''/api/health'', plain_get)], Inl server_connection_failed)
   \<and> snd (generateSpeech
        (\<lambda>url init. if url = ''/api/health'' then \<lparr>latency = 20, outcome = Resolved ok_response\<rparr>
                     else \<lparr>latency = 20, outcome = Rejected (TypeError ''Failed to fetch'')\<rparr>)
        (ustr ''hello'')) = Inl server_connection_failed"
proof -
  let ?down = "\<lambda>(url::string) (init::fetch_init). \<lparr>latency = 20, outcome = Rejected (TypeError ''Failed to fetch'')\<rparr>"
  let ?drop = "\<lambda>(url::string) (init::fetch_init). if url = ''/api/health'' then \<lparr>latency = 20, outcome = Resolved ok_response\<rparr>
                     else \<lparr>latency = 20, outcome = Rejected (TypeError ''Failed to fetch'')\<rparr>"
  have d: "\<not> (\<exists>r. fetch ?down ''/api/health'' plain_get = Resolved r \<and> resp_ok r)"
    by (simp add: fetch_def plain_get_def)
  have u: "\<exists>r. fetch ?drop ''/api/health'' plain_get = Resolved r \<and> resp_ok r"
    by (simp add: fetch_def plain_get_def ok_response_def)
  have r: "fetch ?drop ''/api/speech'' (speech_request (ustr ''hello'')) = Rejected (TypeError ''Failed to fetch'')"
    by (simp add: fetch_def speech_request_def)
  show ?thesis
    using gateway_liveness_first [of ?down "[1, 2, 3]" "ustr ''hello''"]
      gateway_liveness_first [of ?drop "[1, 2, 3]" "ustr ''hello''"] d u r
    by (simp add: TypeError_def)
qed

text \<open>
  Claim C5. Both gateway operations check the health endpoint first and fail with
  "Server connection failed" without a main request when it does not answer well, and a
  raw network failure of the main request is to be normalised to that same error. Here
  the health check passes and the main fetch is rejected with the message "Load failed":
  both operations throw the rejection itself instead of "Server connection failed". The
  same rejection at the health check is normalised, and no main request is issued.
\<close>

theorem gateway_main_failure_leaks:
  "fetch dropping_net ''/api/health'' plain_get = Resolved ok_response
   \<and> resp_ok ok_response
   \<and> fetch dropping_net ''/api/transcribe'' (transcribe_request [1, 2, 3]) =
        Rejected (TypeError ''Load failed'')
   \<and> fetch dropping_net ''/api/speech'' (speech_request (ustr ''hello'')) =
        Rejected (TypeError ''Load failed'')
   \<and> snd (transcribeAudio dropping_net [1, 2, 3]) = Inl (TypeError ''Load failed'')
   \<and> snd (generateSpeech dropping_net (ustr ''hello'')) = Inl (TypeError ''Load failed'')
   \<and> TypeError ''Load failed'' \<noteq> server_connection_failed
   \<and> transcribeAudio
        (\<lambda>url init. \<lparr>latency = 20, outcome = Rejected (TypeError ''Load failed'')\<rparr>) [1, 2, 3] =
        ([(''/api/health'', plain_get)], Inl server_connection_failed)
   \<and> generateSpeech
        (\<lambda>url init. \<lparr>latency = 20, outcome = Rejected (TypeError ''Load failed'')\<rparr>) (ustr ''hello'') =
        ([(''/api/health'', plain_get)], Inl server_connection_failed)"
proof -
  have a: "fetch dropping_net ''/api/health'' plain_get = Resolved ok_response"
    "resp_ok ok_response"
    "fetch dropping_net ''/api/transcribe'' (transcribe_request [1, 2, 3]) =
        Rejected (TypeError ''Load failed'')"
    "fetch dropping_net ''/api/speech'' (speech_request (ustr ''hello'')) =
        Rejected (TypeError ''Load failed'')"
    by (simp_all add: fetch_def dropping_net_def plain_get_def transcribe_request_def
        speech_request_def ok_response_def)
  have h: "healthCheck dropping_net = Inr ()"
    using a(1,2) by (simp add: healthCheck_def health_url)
  have b: "snd (transcribeAudio dropping_net [1, 2, 3]) = Inl (TypeError ''Load failed'')"
    using a(3) by (simp add: transcribeAudio_def h health_url Let_def gateway_catch_def TypeError_def)
  have c: "snd (generateSpeech dropping_net (ustr ''hello'')) = Inl (TypeError ''Load failed'')"
    using a(4) by (simp add: generateSpeech_def h health_url Let_def gateway_catch_def TypeError_def)
  have d: "TypeError ''Load failed'' \<noteq> server_connection_failed"
    by (simp add: TypeError_def server_connection_failed_def Error_def)
  let ?down = "\<lambda>(url::string) (init::fetch_init). \<lparr>latency = 20, outcome = Rejected (TypeError ''Load failed'')\<rparr>"
  have hd: "healthCheck ?down = Inl server_connection_failed"
    by (simp add: healthCheck_def fetch_def plain_get_def)
  have e: "transcribeAudio ?down [1, 2, 3] = ([(''/api/health'', plain_get)], Inl server_connection_failed)"
    by (simp add: transcribeAudio_def hd health_url gateway_catch_scf)
  have f: "generateSpeech ?down (ustr ''hello'') = ([(''/api/health'', plain_get)], Inl server_connection_failed)"
    by (simp add: generateSpeech_def hd health_url gateway_catch_scf)
  show ?thesis
    using a b c d e f by (simp only: simp_thms)
qed

lemma fetch_aborted:
  "fi_signal init = Some ms \<Longrightarrow> ms < latency (net url init) \<Longrightarrow> fetch net url init = Rejected AbortError"
  by (simp add: fetch_def)

lemma fetch_in_time:
  "fi_signal init = Some ms \<Longrightarrow> \<not> ms < latency (net url init) \<Longrightarrow> fetch net url init = outcome (net url init)"
  by (simp add: fetch_def)

lemma audioUtils_catch_abort: "audioUtils_catch m AbortError = Error m"
  by (simp add: audioUtils_catch_def AbortError_def)

lemma gateway_requests_unsigned:
  "(url, init) \<in> set (fst (transcribeAudio net audioBlob)) \<Longrightarrow> fi_signal init = None"
  "(url, init) \<in> set (fst (generateSpeech net text)) \<Longrightarrow> fi_signal init = None"
  by (auto simp: transcribeAudio_def generateSpeech_def Let_def plain_get_def
      transcribe_request_def speech_request_def split: sum.splits)

lemma audioUtils_transcribe_timeout:
  assumes "30000 < latency (net ''/api/transcribe'' (audioUtils_transcribe_request audioBlob))"
  shows "snd (audioUtils_transcribeAudio net audioBlob) =
     Inl (Error ''Transcription request timed out. Try a shorter recording (under 10 seconds).'')"
proof -
  have "fetch net ''/api/transcribe'' (audioUtils_transcribe_request audioBlob) = Rejected AbortError"
    using assms by (intro fetch_aborted [of _ 30000]) (simp_all add: audioUtils_transcribe_request_def)
  then show ?thesis
    by (simp add: audioUtils_transcribeAudio_def Let_def audioUtils_catch_abort)
qed

lemma audioUtils_speech_timeout:
  assumes "30000 < latency (net ''/api/speech''
      (audioUtils_speech_request text (if voice = JUndefined then JStr (ustr ''alloy'') else voice)))"
  shows "snd (audioUtils_generateSpeech net text voice) =
     Inl (Error ''Speech generation request timed out. Try shorter text.'')"
proof -
  let ?init = "audioUtils_speech_request text (if voice = JUndefined then JStr (ustr ''alloy'') else voice)"
  have "fetch net ''/api/speech'' ?init = Rejected AbortError"
    using assms by (intro fetch_aborted [of _ 30000]) (simp_all add: audioUtils_speech_request_def)
  then show ?thesis
    by (simp add: audioUtils_generateSpeech_def Let_def audioUtils_catch_abort)
qed

lemma audioUtils_catch_timeout:
  "audioUtils_catch m e = Error m \<Longrightarrow> err_name e = ''AbortError'' \<or> e = Error m"
  by (simp add: audioUtils_catch_def split: if_splits)

lemma SyntaxError_not_Error: "SyntaxError \<noteq> Error m" "err_name SyntaxError \<noteq> ''AbortError''"
  by (simp_all add: SyntaxError_def Error_def)

lemma Error_name: "err_name (Error m) \<noteq> ''AbortError''" "Error m = Error m' \<longleftrightarrow> m = m'"
  by (auto simp: Error_def)

lemma audioUtils_transcribe_only_timeout:
  assumes "snd (audioUtils_transcribeAudio net audioBlob) =
     Inl (Error ''Transcription request timed out. Try a shorter recording (under 10 seconds).'')"
    and "\<not> 30000 < latency (net ''/api/transcribe'' (audioUtils_transcribe_request audioBlob))"
  shows "(\<exists>e. outcome (net ''/api/transcribe'' (audioUtils_transcribe_request audioBlob)) = Rejected e
            \<and> (err_name e = ''AbortError''
               \<or> e = Error ''Transcription request timed out. Try a shorter recording (under 10 seconds).''))
       \<or> (\<exists>r j. outcome (net ''/api/transcribe'' (audioUtils_transcribe_request audioBlob)) = Resolved r
            \<and> resp_json r = Some j \<and> \<not> resp_ok r
            \<and> jp_error j = Some ''Transcription request timed out. Try a shorter recording (under 10 seconds).'')"
proof -
  let ?init = "audioUtils_transcribe_request audioBlob"
  have f: "fetch net ''/api/transcribe'' ?init = outcome (net ''/api/transcribe'' ?init)"
    using assms(2) by (simp add: fetch_def audioUtils_transcribe_request_def)
  show ?thesis
  proof (cases "outcome (net ''/api/transcribe'' ?init)")
    case (Rejected e)
    then show ?thesis
      using assms(1) f audioUtils_catch_timeout [of _ e]
      by (simp add: audioUtils_transcribeAudio_def Let_def)
  next
    case (Resolved r)
    show ?thesis
    proof (cases "resp_json r")
      case None
      then show ?thesis
        using assms(1) f Resolved audioUtils_catch_timeout [of _ SyntaxError] SyntaxError_not_Error
        by (auto simp: audioUtils_transcribeAudio_def Let_def)
    next
      case (Some j)
      then show ?thesis
        using assms(1) f Resolved
          audioUtils_catch_timeout [of _ "Error (error_or j ''Transcription failed'')"]
        by (auto simp: audioUtils_transcribeAudio_def Let_def Error_name error_or_def
            split: if_splits option.splits)
    qed
  qed
qed


lemma audioUtils_speech_only_timeout:
  assumes "snd (audioUtils_generateSpeech net text voice) =
     Inl (Error ''Speech generation request timed out. Try shorter text.'')"
    and "\<not> 30000 < latency (net ''/api/speech'' (audioUtils_speech_request text
           (if voice = JUndefined then JStr (ustr ''alloy'') else voice)))"
  shows "(\<exists>e. outcome (net ''/api/speech'' (audioUtils_speech_request text
                 (if voice = JUndefined then JStr (ustr ''alloy'') else voice))) = Rejected e
            \<and> (err_name e = ''AbortError''
               \<or> e = Error ''Speech generation request timed out. Try shorter text.''))
       \<or> (\<exists>r j. outcome (net ''/api/speech'' (audioUtils_speech_request text
                 (if voice = JUndefined then JStr (ustr ''alloy'') else voice))) = Resolved r
            \<and> resp_json r = Some j \<and> \<not> resp_ok r
            \<and> jp_error j = Some ''Speech generation request timed out. Try shorter text.'')"
proof -
  let ?init = "audioUtils_speech_request text
                 (if voice = JUndefined then JStr (ustr ''alloy'') else voice)"
  have f: "fetch net ''/api/speech'' ?init = outcome (net ''/api/speech'' ?init)"
    using assms(2) by (simp add: fetch_def audioUtils_speech_request_def)
  show ?thesis
  proof (cases "outcome (net ''/api/speech'' ?init)")
    case (Rejected e)
    then show ?thesis
      using assms(1) f audioUtils_catch_timeout [of _ e]
      by (simp add: audioUtils_generateSpeech_def Let_def)
  next
    case (Resolved r)
    show ?thesis
    proof (cases "resp_json r")
      case None
      then show ?thesis
        using assms(1) f Resolved audioUtils_catch_timeout [of _ SyntaxError] SyntaxError_not_Error
        by (auto simp: audioUtils_generateSpeech_def Let_def split: if_splits)
    next
      case (Some j)
      then show ?thesis
        using assms(1) f Resolved
          audioUtils_catch_timeout [of _ "Error (error_or j ''Speech generation failed'')"]
        by (auto simp: audioUtils_generateSpeech_def Let_def Error_name error_or_def
            split: if_splits option.splits)
    qed
  qed
qed

text \<open>
  Claim C3, amended. The helpers of audioUtils.js issue one request each, with the signal
  of a 30000 ms abort timer attached; when the round trip takes longer they throw their
  own timed-out error, and otherwise they throw that error only if the network itself
  rejected with an AbortError or with that very error, or the relay sent that very
  message. The gateway of services/openai.ts, the one the controller calls, attaches no
  signal to any request. As stated (every client-side main request is bounded) the claim
  fails: the gateway waits 45 seconds for the relay and returns its answer.
\<close>

theorem abort_bound:
  "fst (audioUtils_transcribeAudio net audioBlob) =
       [(''/api/transcribe'', audioUtils_transcribe_request audioBlob)]
   \<and> fi_signal (audioUtils_transcribe_request audioBlob) = Some 30000
   \<and> (30000 < latency (net ''/api/transcribe'' (audioUtils_transcribe_request audioBlob)) \<longrightarrow>
        snd (audioUtils_transcribeAudio net audioBlob) =
          Inl (Error ''Transcription request timed out. Try a shorter recording (under 10 seconds).''))
   \<and> (\<not> 30000 < latency (net ''/api/transcribe'' (audioUtils_transcribe_request audioBlob))
        \<and> snd (audioUtils_transcribeAudio net audioBlob) =
          Inl (Error ''Transcription request timed out. Try a shorter recording (under 10 seconds).'')
        \<longrightarrow>
        (\<exists>e. outcome (net ''/api/transcribe'' (audioUtils_transcribe_request audioBlob)) = Rejected e
            \<and> (err_name e = ''AbortError''
               \<or> e = Error ''Transcription request timed out. Try a shorter recording (under 10 seconds).''))
        \<or> (\<exists>r j. outcome (net ''/api/transcribe'' (audioUtils_transcribe_request audioBlob)) = Resolved r
            \<and> resp_json r = Some j \<and> \<not> resp_ok r
            \<and> jp_error j = Some ''Transcription request timed out. Try a shorter recording (under 10 seconds).''))
   \<and> fst (audioUtils_generateSpeech net text voice) =
       [(''/api/speech'', audioUtils_speech_request text
           (if voice = JUndefined then JStr (ustr ''alloy'') else voice))]
   \<and> fi_signal (audioUtils_speech_request text
           (if voice = JUndefined then JStr (ustr ''alloy'') else voice)) = Some 30000
   \<and> (30000 < latency (net ''/api/speech'' (audioUtils_speech_request text
           (if voice = JUndefined then JStr (ustr ''alloy'') else voice))) \<longrightarrow>
        snd (audioUtils_generateSpeech net text voice) =
          Inl (Error ''Speech generation request timed out. Try shorter text.''))
   \<and> (\<not> 30000 < latency (net ''/api/speech'' (audioUtils_speech_request text
           (if voice = JUndefined then JStr (ustr ''alloy'') else voice)))
        \<and> snd (audioUtils_generateSpeech net text voice) =
          Inl (Error ''Speech generation request timed out. Try shorter text.'')
        \<longrightarrow>
        (\<exists>e. outcome (net ''/api/speech'' (audioUtils_speech_request text
                 (if voice = JUndefined then JStr (ustr ''alloy'') else voice))) = Rejected e
            \<and> (err_name e = ''AbortError''
               \<or> e = Error ''Speech generation request timed out. Try shorter text.''))
        \<or> (\<exists>r j. outcome (net ''/api/speech'' (audioUtils_speech_request text
                 (if voice = JUndefined then JStr (ustr ''alloy'') else voice))) = Resolved r
            \<and> resp_json r = Some j \<and> \<not> resp_ok r
            \<and> jp_error j = Some ''Speech generation request timed out. Try shorter text.''))
   \<and> (\<forall>(url, init) \<in> set (fst (transcribeAudio net audioBlob)). fi_signal init = None)
   \<and> (\<forall>(url, init) \<in> set (fst (generateSpeech net text)). fi_signal init = None)"
proof -
  have a: "fst (audioUtils_transcribeAudio net audioBlob) =
       [(''/api/transcribe'', audioUtils_transcribe_request audioBlob)]"
    by (simp add: audioUtils_transcribeAudio_def Let_def)
  have b: "fst (audioUtils_generateSpeech net text voice) =
       [(''/api/speech'', audioUtils_speech_request text
           (if voice = JUndefined then JStr (ustr ''alloy'') else voice))]"
    by (simp add: audioUtils_generateSpeech_def Let_def)
  have c: "fi_signal (audioUtils_transcribe_request audioBlob) = Some 30000"
    "fi_signal (audioUtils_speech_request text
           (if voice = JUndefined then JStr (ustr ''alloy'') else voice)) = Some 30000"
    by (simp_all add: audioUtils_transcribe_request_def audioUtils_speech_request_def)
  have d: "\<forall>(url, init) \<in> set (fst (transcribeAudio net audioBlob)). fi_signal init = None"
    "\<forall>(url, init) \<in> set (fst (generateSpeech net text)). fi_signal init = None"
    using gateway_requests_unsigned(1) [of _ _ net audioBlob]
      gateway_requests_unsigned(2) [of _ _ net "text"]
    by blast+
  note t = audioUtils_transcribe_timeout [of net audioBlob]
    audioUtils_transcribe_only_timeout [of net audioBlob]
  note s = audioUtils_speech_timeout [of net "text" voice]
    audioUtils_speech_only_timeout [of net "text" voice]
  show ?thesis
    by (intro conjI impI a b c d; (elim conjE)?; (rule t s; assumption)?)
qed

theorem abort_bound_counterexample:
  "fst (transcribeAudio slow_net [1, 2, 3]) =
      [(''/api/health'', plain_get), (''/api/transcribe'', transcribe_request [1, 2, 3])]
   \<and> fi_signal (transcribe_request [1, 2, 3]) = None
   \<and> 30000 < latency (slow_net ''/api/transcribe'' (transcribe_request [1, 2, 3]))
   \<and> snd (transcribeAudio slow_net [1, 2, 3]) = Inr (ustr ''hello'')"
  by (simp add: transcribeAudio_def healthCheck_def fetch_def slow_net_def plain_get_def
      transcribe_request_def health_url ok_response_def Let_def)

theorem abort_bound_witness:
  "snd (audioUtils_transcribeAudio slow_net [1, 2, 3]) =
      Inl (Error ''Transcription request timed out. Try a shorter recording (under 10 seconds).'')
   \<and> snd (audioUtils_generateSpeech slow_net (ustr ''hello'') JUndefined) =
      Inl (Error ''Speech generation request timed out. Try shorter text.'')
   \<and> map (fi_signal \<circ> snd) (fst (generateSpeech slow_net (ustr ''hello''))) = [None, None]
   \<and> snd (audioUtils_transcribeAudio (\<lambda>url init. \<lparr>latency = 20, outcome = Rejected AbortError\<rparr>)
          [1, 2, 3]) =
      Inl (Error ''Transcription request timed out. Try a shorter recording (under 10 seconds).'')
   \<and> err_name AbortError = ''AbortError''"
proof -
  let ?cut = "\<lambda>(url::string) (init::fetch_init). \<lparr>latency = 20, outcome = Rejected AbortError\<rparr>"
  have l: "30000 < latency (slow_net ''/api/transcribe'' (audioUtils_transcribe_request [1, 2, 3]))"
    "30000 < latency (slow_net ''/api/speech'' (audioUtils_speech_request (ustr ''hello'')
           (if JUndefined = JUndefined then JStr (ustr ''alloy'') else JUndefined)))"
    by (simp_all add: slow_net_def)
  have g: "fst (generateSpeech slow_net (ustr ''hello'')) =
      [(''/api/health'', plain_get), (''/api/speech'', speech_request (ustr ''hello''))]"
    by (simp add: generateSpeech_def healthCheck_def fetch_def slow_net_def plain_get_def
      health_url ok_response_def Let_def)
  have q: "\<not> 30000 < latency (?cut ''/api/transcribe'' (audioUtils_transcribe_request [1, 2, 3]))"
    by simp
  have c: "snd (audioUtils_transcribeAudio ?cut [1, 2, 3]) =
      Inl (Error ''Transcription request timed out. Try a shorter recording (under 10 seconds).'')"
    by (simp add: audioUtils_transcribeAudio_def Let_def fetch_def audioUtils_transcribe_request_def
        audioUtils_catch_abort)
  show ?thesis
    using abort_bound [of slow_net "[1, 2, 3]" "ustr ''hello''" JUndefined] l g
      abort_bound [of ?cut "[1, 2, 3]" "ustr ''hello''" JUndefined] q c
    by (simp add: AbortError_def)
qed

lemma handleTextToSpeech_requests:
  assumes "(url, init) \<in> set (fst (handleTextToSpeech now net play st))"
  shows "\<exists>t. (url, init) \<in> set (fst (generateSpeech net t))"
proof -
  obtain sto s where st: "st = (sto, s)" by (cases st)
  show ?thesis
    using assms unfolding st handleTextToSpeech_def Let_def
    by (auto split: if_splits prod.splits sum.splits option.splits) (metis fst_conv)+
qed

text \<open>
  Claim C9. The body the gateway's generateSpeech sends is the JSON object with the single
  property text; it issues that request and the health check and nothing else, and so does
  the controller's playback handler, whose requests never carry a voice property. Reading
  voice from that body on the server gives undefined, and every provider call the speech
  handler makes for it uses the voice "alloy" with the text as input.
\<close>

theorem client_voice_default:
  "fi_body (speech_request text) = JsonBody (JObj [(ustr ''text'', JStr text)])
   \<and> (\<forall>(url, init) \<in> set (fst (generateSpeech net text)).
         init = plain_get \<and> url = ''/api/health'' \<or> init = speech_request text \<and> url = ''/api/speech'')
   \<and> (\<forall>(url, init) \<in> set (fst (handleTextToSpeech at net play st)).
         \<forall>b. fi_body init = JsonBody b \<longrightarrow> getProp b ''voice'' = JUndefined)
   \<and> getProp (JObj [(ustr ''text'', JStr text)]) ''voice'' = JUndefined
   \<and> (\<forall>c \<in> set (snd (fst (speech_handler P ip now (JObj [(ustr ''text'', JStr text)]) rl))).
         c = SpeechCall \<lparr>sc_model = ''tts-1'', sc_voice = JStr (ustr ''alloy''), sc_input = text\<rparr>)"
proof -
  have k: "ustr ''text'' \<noteq> ustr ''voice''" by (simp add: ustr_def)
  have v: "getProp (JObj [(ustr ''text'', JStr t)]) ''voice'' = JUndefined" for t
    using k by simp
  have t: "getProp (JObj [(ustr ''text'', JStr text)]) ''text'' = JStr text" by simp
  have nb: "JObj [(ustr ''text'', JStr text)] \<noteq> JUndefined" "JObj [(ustr ''text'', JStr text)] \<noteq> JNull"
    by simp_all
  have calls: "c = SpeechCall \<lparr>sc_model = ''tts-1'', sc_voice = JStr (ustr ''alloy''), sc_input = text\<rparr>"
    if "c \<in> set (snd (fst (speech_handler P ip now (JObj [(ustr ''text'', JStr text)]) rl)))" for c
    using that unfolding speech_handler_unfold speech_validated_string [OF nb t] v
    by (auto simp: Let_def split: if_splits sum.splits)
  have reqs: "init = plain_get \<and> url = ''/api/health'' \<or> init = speech_request t \<and> url = ''/api/speech''"
    if "(url, init) \<in> set (fst (generateSpeech net t))" for url init t
    using that by (auto simp: generateSpeech_def Let_def health_url split: sum.splits)
  have click: "getProp b ''voice'' = JUndefined"
    if h: "(url, init) \<in> set (fst (handleTextToSpeech at net play st))" "fi_body init = JsonBody b"
    for url init b
  proof -
    obtain t where "(url, init) \<in> set (fst (generateSpeech net t))"
      using handleTextToSpeech_requests [OF h(1)] by blast
    then have "init = plain_get \<or> init = speech_request t" using reqs by blast
    then show ?thesis
      using h(2) v [of t] by (auto simp: plain_get_def speech_request_def)
  qed
  show ?thesis
    using v [of "text"] calls reqs [of _ _ "text"] click by (auto simp: speech_request_def)
qed

theorem client_voice_default_witness:
  "snd (fst (speech_handler canned_provider ''203.0.113.7'' 5000
        (JObj [(ustr ''text'', JStr (ustr ''hello''))]) Map.empty)) =
     [SpeechCall \<lparr>sc_model = ''tts-1'', sc_voice = JStr (ustr ''alloy''), sc_input = ustr ''hello''\<rparr>]
   \<and> fst (generateSpeech quick_net (ustr ''hello'')) =
        [(''/api/health'', plain_get), (''/api/speech'', speech_request (ustr ''hello''))]"
proof -
  let ?calls = "snd (fst (speech_handler canned_provider ''203.0.113.7'' 5000
        (JObj [(ustr ''text'', JStr (ustr ''hello''))]) Map.empty))"
  have t: "trim (ustr ''hello'') \<noteq> []"
    by (simp add: trim_def ustr_def isWhiteSpace_def)
  have n: "length ?calls = 1"
    using t
    by (simp add: speech_handler_unfold checkRateLimit_def RATE_LIMIT_WINDOW_def
        speech_validated_def canned_provider_def Let_def ustr_def)
  then obtain c where c: "?calls = [c]"
    by (cases ?calls) auto
  have g: "fst (generateSpeech quick_net (ustr ''hello'')) =
        [(''/api/health'', plain_get), (''/api/speech'', speech_request (ustr ''hello''))]"
    by (simp add: generateSpeech_def healthCheck_def fetch_def quick_net_def plain_get_def
      health_url ok_response_def Let_def)
  show ?thesis
    using client_voice_default [of "ustr ''hello''" quick_net 5000 None
        "(store initial_app, outputControls initial_app)" canned_provider "''203.0.113.7''" 5000 Map.empty] c g
    by simp
qed

section \<open>Properties of the controller\<close>

subsection \<open>Stopping and starting a recording\<close>

lemma stopRecording_cases:
  "stopRecording s =
     (case mediaRecorder s of
        None \<Rightarrow> Inr s
      | Some mr \<Rightarrow>
          if mr_state mr \<noteq> Inactive
          then Inr (s\<lparr>mediaRecorder := Some \<lparr>mr_state = Inactive, mr_tracks = map (\<lambda>t. Ended) (mr_tracks mr)\<rparr>\<rparr>)
          else Inr s)"
  by (cases "mediaRecorder s") (auto simp: stopRecording_def mr_stop_def track_stop_def fun_eq_iff)

lemma stopRecording_total: "\<exists>s'. stopRecording s = Inr s'"
  by (simp add: stopRecording_cases split: option.splits)

lemma stopRecording_idem: "stopRecording s = Inr s' \<Longrightarrow> stopRecording s' = Inr s'"
  by (auto simp: stopRecording_cases split: option.splits if_splits)

lemma stopRecording_active:
  assumes "mediaRecorder s = Some mr" "mr_state mr \<noteq> Inactive" "stopRecording s = Inr s'"
  shows "\<exists>mr'. mediaRecorder s' = Some mr' \<and> mr_state mr' = Inactive
           \<and> length (mr_tracks mr') = length (mr_tracks mr) \<and> (\<forall>t \<in> set (mr_tracks mr'). t = Ended)"
  using assms by (auto simp: stopRecording_cases)

text \<open>
  Claim C8. stopRecording never throws, and calling it again on its result changes nothing
  and does not throw either. When the recorder is not inactive it becomes inactive and
  every track of its stream is ended; when there is no recorder or it is already inactive
  nothing changes. The manual stop (a click while recording) and the countdown's
  stop (the interval callback at one second or less) both go through it.
\<close>

theorem stopRecording_releases:
  "(\<exists>s'. stopRecording s = Inr s' \<and> stopRecording s' = Inr s'
      \<and> (\<forall>mr. mediaRecorder s = Some mr \<and> mr_state mr \<noteq> Inactive \<longrightarrow>
            (\<exists>mr'. mediaRecorder s' = Some mr' \<and> mr_state mr' = Inactive
               \<and> length (mr_tracks mr') = length (mr_tracks mr)
               \<and> (\<forall>t \<in> set (mr_tracks mr'). t = Ended)))
      \<and> ((mediaRecorder s = None \<or> (\<exists>mr. mediaRecorder s = Some mr \<and> mr_state mr = Inactive)) \<longrightarrow> s' = s)
      \<and> (isEnabled st \<and> isRecording s \<longrightarrow> handleSpeechToText now mic (st, s) = Inr (st, s'))
      \<and> (timeLeft s \<le> 1 \<longrightarrow> tick s = Inr (s'\<lparr>timeLeft := 0\<rparr>)))"
proof -
  obtain s' where s': "stopRecording s = Inr s'"
    using stopRecording_total by blast
  have i: "stopRecording s' = Inr s'" using s' by (rule stopRecording_idem)
  have a: "\<forall>mr. mediaRecorder s = Some mr \<and> mr_state mr \<noteq> Inactive \<longrightarrow>
            (\<exists>mr'. mediaRecorder s' = Some mr' \<and> mr_state mr' = Inactive
               \<and> length (mr_tracks mr') = length (mr_tracks mr)
               \<and> (\<forall>t \<in> set (mr_tracks mr'). t = Ended))"
    using stopRecording_active [OF _ _ s'] by blast
  have n: "(mediaRecorder s = None \<or> (\<exists>mr. mediaRecorder s = Some mr \<and> mr_state mr = Inactive)) \<longrightarrow> s' = s"
    using s' by (auto simp: stopRecording_cases)
  have m: "isEnabled st \<and> isRecording s \<longrightarrow> handleSpeechToText now mic (st, s) = Inr (st, s')"
    using s' by (simp add: handleSpeechToText_def)
  have t: "timeLeft s \<le> 1 \<longrightarrow> tick s = Inr (s'\<lparr>timeLeft := 0\<rparr>)"
    using s' by (simp add: tick_def)
  show ?thesis using s' i a n m t by blast
qed

theorem stopRecording_releases_witness:
  "stopRecording ((mounted (TextArea []))\<lparr>mediaRecorder := Some \<lparr>mr_state = Recording, mr_tracks = [Live]\<rparr>,
        isRecording := True\<rparr>)
     = Inr ((mounted (TextArea []))\<lparr>mediaRecorder := Some \<lparr>mr_state = Inactive, mr_tracks = [Ended]\<rparr>,
        isRecording := True\<rparr>)
   \<and> stopRecording ((mounted (TextArea []))\<lparr>mediaRecorder := Some \<lparr>mr_state = Inactive, mr_tracks = [Ended]\<rparr>,
        isRecording := True\<rparr>)
     = Inr ((mounted (TextArea []))\<lparr>mediaRecorder := Some \<lparr>mr_state = Inactive, mr_tracks = [Ended]\<rparr>,
        isRecording := True\<rparr>)
   \<and> tick ((mounted (TextArea []))\<lparr>mediaRecorder := Some \<lparr>mr_state = Recording, mr_tracks = [Live]\<rparr>,
        isRecording := True, timeLeft := 1\<rparr>)
     = Inr ((mounted (TextArea []))\<lparr>mediaRecorder := Some \<lparr>mr_state = Inactive, mr_tracks = [Ended]\<rparr>,
        isRecording := True, timeLeft := 0\<rparr>)"
proof -
  let ?s = "(mounted (TextArea []))\<lparr>mediaRecorder := Some \<lparr>mr_state = Recording, mr_tracks = [Live]\<rparr>,
        isRecording := True\<rparr>"
  let ?s' = "(mounted (TextArea []))\<lparr>mediaRecorder := Some \<lparr>mr_state = Inactive, mr_tracks = [Ended]\<rparr>,
        isRecording := True\<rparr>"
  let ?st = "\<lparr>isEnabled = True, isSpeaking = False, isListening = True\<rparr>"
  have e: "stopRecording ?s = Inr ?s'"
    by (simp add: stopRecording_def mr_stop_def track_stop_def mounted_def)
  have e1: "stopRecording (?s\<lparr>timeLeft := 1\<rparr>) = Inr (?s'\<lparr>timeLeft := 1\<rparr>)"
    by (simp add: stopRecording_def mr_stop_def track_stop_def mounted_def)
  show ?thesis
    using stopRecording_releases [of ?s ?st 5000 "Inr [Live]"]
      stopRecording_releases [of "?s\<lparr>timeLeft := 1\<rparr>" ?st 5000 "Inr [Live]"] e e1
    by (auto simp: mounted_def)
qed

lemma requestMicrophonePermission_target:
  "targetRef (snd (requestMicrophonePermission mic s)) = targetRef s"
  by (simp add: requestMicrophonePermission_def split: sum.splits thrown.splits)


lemma startRecording_resume_target:
  "targetRef (snd (startRecording_resume mic (st, s))) = targetRef s"
  using requestMicrophonePermission_target [of mic s]
  by (cases "requestMicrophonePermission mic s") (auto simp: startRecording_resume_def split: sum.splits)


lemma onstop_failure_target:
  "snd (transcribeAudio net (concat (audioChunks s))) = Inl e \<Longrightarrow>
   targetRef (snd (snd (onstop net (st, s)))) = targetRef s"
  by (cases "transcribeAudio net (concat (audioChunks s))") (auto simp: onstop_def Let_def)

text \<open>
  Claim C10. When the limiter lets startRecording pass and the target is a textarea, the
  part of startRecording that runs before the permission request is awaited has already
  emptied the textarea; whatever the permission request gives, the textarea is empty when
  startRecording is done, and a later failed transcription leaves it empty.
\<close>

theorem startRecording_clears_target:
  assumes "\<not> now - lastApiCallRef s < 1000"
    and "targetRef s = TextArea v"
  shows "(\<exists>s1. startRecording_begin now s = AwaitingPermission s1 \<and> targetRef s1 = TextArea [])
     \<and> targetRef (snd (startRecording now mic (st, s))) = TextArea []
     \<and> (\<forall>net st2 s2 e. targetRef s2 = TextArea []
            \<and> snd (transcribeAudio net (concat (audioChunks s2))) = Inl e
          \<longrightarrow> targetRef (snd (snd (onstop net (st2, s2)))) = TextArea [])"
proof -
  let ?s1 = "s\<lparr>lastApiCallRef := now, error := None, isProcessing := False, targetRef := TextArea []\<rparr>"
  have b: "startRecording_begin now s = AwaitingPermission ?s1"
    using assms by (simp add: startRecording_begin_def vc_checkRateLimit_def RATE_LIMIT_DELAY_def)
  have r: "targetRef (snd (startRecording now mic (st, s))) = TextArea []"
    by (simp add: startRecording_def b startRecording_resume_target)
  show ?thesis
    using b r onstop_failure_target by auto
qed

theorem startRecording_clears_target_witness:
  "targetRef (snd (startRecording 5000
       (Inl (ThrownError \<lparr>err_status = None, err_name = ''NotAllowedError'', err_message = ''Permission denied''\<rparr>))
       (\<lparr>isEnabled = True, isSpeaking = False, isListening = False\<rparr>,
        mounted (TextArea (ustr ''notes''))))) = TextArea []
   \<and> error (snd (startRecording 5000
       (Inl (ThrownError \<lparr>err_status = None, err_name = ''NotAllowedError'', err_message = ''Permission denied''\<rparr>))
       (\<lparr>isEnabled = True, isSpeaking = False, isListening = False\<rparr>,
        mounted (TextArea (ustr ''notes''))))) =
     Some ''Microphone access denied. Please allow microphone access in your browser settings and try again.''"
proof -
  have l: "\<not> 5000 - lastApiCallRef (mounted (TextArea (ustr ''notes''))) < 1000"
    by (simp add: mounted_def)
  have t: "targetRef (mounted (TextArea (ustr ''notes''))) = TextArea (ustr ''notes'')"
    by (simp add: mounted_def)
  show ?thesis
    using startRecording_clears_target [OF l t,
        of "Inl (ThrownError \<lparr>err_status = None, err_name = ''NotAllowedError'', err_message = ''Permission denied''\<rparr>)"
           "\<lparr>isEnabled = True, isSpeaking = False, isListening = False\<rparr>"]
    by (simp add: startRecording_def startRecording_begin_def vc_checkRateLimit_def
        RATE_LIMIT_DELAY_def mounted_def startRecording_resume_def requestMicrophonePermission_def
        Error_def)
qed

subsection \<open>One limiter for each mounted component\<close>














end
